theory Spec2Isabelle
  imports Complex_Main
begin

section \<open>Errors and the observable world\<close>

text \<open>
  The exceptions the benchmark code can raise, as values. \<open>SystemExit\<close> is Python's
  \<open>exit(1)\<close>; \<open>ExternalError\<close> stands for an exception raised inside a library call
  (scikit-allel, zarr, numpy I/O) whose cause lies in the environment, not in the arguments
  the code computes.
\<close>

datatype error =
    TypeError string
  | ValueError string
  | IndexError string
  | AttributeError string
  | SystemExit int
  | ExternalError string

text \<open>
  One line of a result log. \<open>to_csv\<close> writes the column names of the one-row frame as
  a header line and the row's values as a data line; number formatting is not modelled,
  so a data line keeps the values themselves.
\<close>

datatype cell =
    DateTime real
  | Number "int option"
  | Text "string option"
  | Seconds "real option"

datatype psv_line = HeaderLine "string list" | DataLine "cell list"

text \<open>
  Calls into the operating system and the libraries (scikit-allel, zarr), with the
  arguments the code passes. A conversion request carries everything \<open>vcf_to_zarr\<close>
  is given; \<open>overwrite\<close> is always true and the log always \<open>sys.stdout\<close>.
\<close>

datatype codec = Blosc string int int

record conversion =
  source_path :: string
  destination_path :: string
  alt_ceiling :: int
  selected_fields :: "string list option"
  compression :: codec
  rows_per_chunk :: int
  columns_per_chunk :: int

datatype call =
    ReadVcf string "string list"
  | VcfToZarr conversion
  | PathExists string
  | Rmtree string
  | PathIsfile string
  | PathIsdir string
  | ZarrOpen string
  | RandomChoice nat int

text \<open>
  The world outside the Python objects: the wall clock (the k-th call of \<open>time.time()\<close>
  returns \<open>clock k\<close>), the regular files the recorder writes, what was printed, and the
  calls made so far, oldest first.
\<close>

record world =
  clock :: "nat \<Rightarrow> real"
  reads :: nat
  files :: "string \<rightharpoonup> psv_line list"
  stdout :: "string list"
  calls :: "call list"

definition time_time :: "world \<Rightarrow> real \<times> world" where
  "time_time w = (clock w (reads w), w\<lparr>reads := Suc (reads w)\<rparr>)"

definition isfile :: "world \<Rightarrow> string \<Rightarrow> bool" where
  "isfile w path = (files w path \<noteq> None)"

definition print :: "string \<Rightarrow> world \<Rightarrow> world" where
  "print line w = w\<lparr>stdout := stdout w @ [line]\<rparr>"

section \<open>The timing recorder (core.py, BenchmarkResultsData and BenchmarkProfiler)\<close>

record BenchmarkResultsData =
  run_number :: "int option"
  operation_name :: "string option"
  start_time :: "real option"
  exec_time :: "real option"

definition BenchmarkResultsData_init :: BenchmarkResultsData where
  "BenchmarkResultsData_init =
     \<lparr>run_number = None, operation_name = None, start_time = None, exec_time = None\<rparr>"

text \<open>\<open>datetime.fromtimestamp(None)\<close> raises TypeError.\<close>

definition to_dict :: "BenchmarkResultsData \<Rightarrow> error + (string \<times> cell) list" where
  "to_dict r =
     (case start_time r of
        None \<Rightarrow> Inl (TypeError ''an integer is required (got type NoneType)'')
      | Some t \<Rightarrow>
          Inr [(''Log Timestamp'', DateTime t),
               (''Run Number'', Number (run_number r)),
               (''Operation'', Text (operation_name r)),
               (''Execution Time'', Seconds (exec_time r))])"

text \<open>The one-row data frame is represented by the ordered dictionary it is built from.\<close>

definition to_pandas :: "BenchmarkResultsData \<Rightarrow> error + (string \<times> cell) list" where
  "to_pandas r = to_dict r"

definition to_csv :: "(string \<times> cell) list \<Rightarrow> bool \<Rightarrow> psv_line list" where
  "to_csv df header =
     (if header then [HeaderLine (map fst df)] else []) @ [DataLine (map snd df)]"

record BenchmarkProfiler =
  results :: BenchmarkResultsData
  benchmark_label :: string
  benchmark_running :: bool

definition BenchmarkProfiler_init :: "string \<Rightarrow> BenchmarkProfiler" where
  "BenchmarkProfiler_init label =
     \<lparr>results = BenchmarkResultsData_init, benchmark_label = label,
      benchmark_running = False\<rparr>"

definition set_run_number :: "int \<Rightarrow> BenchmarkProfiler \<Rightarrow> BenchmarkProfiler" where
  "set_run_number n p =
     (if \<not> benchmark_running p
      then p\<lparr>results := (results p)\<lparr>run_number := Some n\<rparr>\<rparr>
      else p)"

definition start_benchmark ::
  "string \<Rightarrow> BenchmarkProfiler \<Rightarrow> world \<Rightarrow> BenchmarkProfiler \<times> world" where
  "start_benchmark name p w =
     (if \<not> benchmark_running p
      then (let p1 = p\<lparr>results := (results p)\<lparr>operation_name := Some name\<rparr>\<rparr>;
                p2 = p1\<lparr>benchmark_running := True\<rparr>;
                (t, w1) = time_time w
            in (p2\<lparr>results := (results p2)\<lparr>start_time := Some t\<rparr>\<rparr>, w1))
      else (p, w))"

text \<open>
  \<open>_record_runtime\<close>: the header flag is computed before the file is opened; opening in
  append mode creates a missing file, also when \<open>to_pandas\<close> then raises.
\<close>

definition record_runtime ::
  "BenchmarkResultsData \<Rightarrow> string \<Rightarrow> world \<Rightarrow> (error + unit) \<times> world" where
  "record_runtime benchmark_results output_filename w =
     (let psv_header = \<not> isfile w output_filename;
          old = (case files w output_filename of None \<Rightarrow> [] | Some ls \<Rightarrow> ls)
      in case to_pandas benchmark_results of
           Inl e \<Rightarrow> (Inl e, w\<lparr>files := (files w)(output_filename \<mapsto> old)\<rparr>)
         | Inr pd_results \<Rightarrow>
             (Inr (),
              w\<lparr>files := (files w)(output_filename \<mapsto> old @ to_csv pd_results psv_header)\<rparr>))"

definition psv_name :: "string \<Rightarrow> string" where
  "psv_name label = label @ ''.psv''"

definition end_benchmark ::
  "BenchmarkProfiler \<Rightarrow> world \<Rightarrow> (error + unit) \<times> BenchmarkProfiler \<times> world" where
  "end_benchmark p w =
     (if benchmark_running p
      then (let (end_time, w1) = time_time w
            in case start_time (results p) of
                 None \<Rightarrow> (Inl (TypeError ''unsupported operand type(s) for -''), p, w1)
               | Some st \<Rightarrow>
                   (let p1 = p\<lparr>results := (results p)\<lparr>exec_time := Some (end_time - st)\<rparr>\<rparr>
                    in case record_runtime (results p1) (psv_name (benchmark_label p1)) w1 of
                         (Inl e, w2) \<Rightarrow> (Inl e, p1, w2)
                       | (Inr u, w2) \<Rightarrow> (Inr (), p1\<lparr>benchmark_running := False\<rparr>, w2)))
      else (Inr (), p, w))"

definition get_benchmark_results :: "BenchmarkProfiler \<Rightarrow> BenchmarkResultsData" where
  "get_benchmark_results p = results p"


subsection \<open>Reading a result log\<close>

text \<open>
  The log of a recorder label, the data rows of a log, and the lines one record becomes.
  \<open>record_all\<close> emits a sequence of records to one file, stopping at the first error;
  it describes the lifetime of a log file that only the recorder writes.
\<close>

definition log_of :: "world \<Rightarrow> string \<Rightarrow> psv_line list" where
  "log_of w label = (case files w (psv_name label) of None \<Rightarrow> [] | Some ls \<Rightarrow> ls)"

fun data_lines :: "psv_line list \<Rightarrow> cell list list" where
  "data_lines [] = []"
| "data_lines (HeaderLine h # ls) = data_lines ls"
| "data_lines (DataLine d # ls) = d # data_lines ls"

definition psv_columns :: "string list" where
  "psv_columns = [''Log Timestamp'', ''Run Number'', ''Operation'', ''Execution Time'']"

definition psv_row :: "BenchmarkResultsData \<Rightarrow> cell list" where
  "psv_row r = (case to_dict r of Inl e \<Rightarrow> [] | Inr d \<Rightarrow> map snd d)"

fun record_all ::
  "BenchmarkResultsData list \<Rightarrow> string \<Rightarrow> world \<Rightarrow> (error + unit) \<times> world" where
  "record_all [] fn w = (Inr (), w)"
| "record_all (r # rs) fn w =
     (case record_runtime r fn w of
        (Inl e, w1) \<Rightarrow> (Inl e, w1)
      | (Inr u, w1) \<Rightarrow> record_all rs fn w1)"

text \<open>A world with an empty file store, used to run the definitions on concrete inputs.\<close>

definition empty_world :: world where
  "empty_world =
     \<lparr>clock = (\<lambda>k. real k), reads = 0, files = Map.empty, stdout = [], calls = []\<rparr>"

section \<open>Genotype arrays (data_service.py)\<close>

text \<open>
  Call data is a three-dimensional array of allele indices: variants, then samples, then
  ploidy. A call set is a dictionary of groups, each a dictionary of arrays; only its
  \<open>calldata\<close> group is read here.
\<close>

type_synonym genotypes = "int list list list"

type_synonym callset = "(string \<times> (string \<times> genotypes) list) list"

datatype genotype_handle =
    GenotypeArray genotypes
  | GenotypeDaskArray genotypes
  | GenotypeChunkedArray genotypes

text \<open>
  The constants \<open>config.GENOTYPE_ARRAY_NORMAL\<close>, \<open>config.GENOTYPE_ARRAY_DASK\<close> and
  \<open>config.GENOTYPE_ARRAY_CHUNKED\<close> are used by the code but are not among the sources:
  they are parameters of every function that compares against them.
\<close>

record genotype_array_kinds =
  GENOTYPE_ARRAY_NORMAL :: int
  GENOTYPE_ARRAY_DASK :: int
  GENOTYPE_ARRAY_CHUNKED :: int

definition get_callset_genotype_data :: "callset \<Rightarrow> genotypes option" where
  "get_callset_genotype_data callset =
     (case map_of callset ''calldata'' of
        None \<Rightarrow> None
      | Some calldata \<Rightarrow>
          (if map_of calldata ''GT'' \<noteq> None then map_of calldata ''GT''
           else if map_of calldata ''genotype'' \<noteq> None then map_of calldata ''genotype''
           else None))"

text \<open>
  The scikit-allel array classes reject \<open>None\<close>; given an array they wrap it.
\<close>

definition wrap_array ::
  "(genotypes \<Rightarrow> genotype_handle) \<Rightarrow> genotypes option \<Rightarrow> error + genotype_handle option" where
  "wrap_array cls gtz =
     (case gtz of
        None \<Rightarrow> Inl (TypeError ''array with 3 dimensions required'')
      | Some g \<Rightarrow> Inr (Some (cls g)))"

definition get_genotype_array ::
  "genotype_array_kinds \<Rightarrow> callset \<Rightarrow> int \<Rightarrow> error + genotype_handle option" where
  "get_genotype_array config callset genotype_array_type =
     (let gtz = get_callset_genotype_data callset
      in if genotype_array_type = GENOTYPE_ARRAY_NORMAL config then wrap_array GenotypeArray gtz
         else if genotype_array_type = GENOTYPE_ARRAY_DASK config
           then wrap_array GenotypeDaskArray gtz
         else if genotype_array_type = GENOTYPE_ARRAY_CHUNKED config
           then wrap_array GenotypeChunkedArray gtz
         else Inr None)"

text \<open>
  \<open>np.concatenate\<close> and \<open>da.concatenate\<close> along the variant axis: they need at least one
  array and no \<open>None\<close> among them. The arrays are taken to agree in their other
  dimensions. Rechunking a Dask array changes its chunk geometry, not its contents.
\<close>

definition concatenate :: "genotypes option list \<Rightarrow> error + genotypes" where
  "concatenate gtz_list =
     (if gtz_list = [] then Inl (ValueError ''need at least one array to concatenate'')
      else if list_ex (\<lambda>g. g = None) gtz_list
        then Inl (ValueError ''zero-dimensional arrays cannot be concatenated'')
      else Inr (concat (map the gtz_list)))"

definition get_genotype_array_concat ::
  "genotype_array_kinds \<Rightarrow> callset list \<Rightarrow> int \<Rightarrow> error + genotype_handle option" where
  "get_genotype_array_concat config callsets genotype_array_type =
     (if length callsets = 1
      then get_genotype_array config (hd callsets) genotype_array_type
      else
          (let gtz_list = map get_callset_genotype_data callsets
           in if genotype_array_type = GENOTYPE_ARRAY_DASK config
                then (case concatenate gtz_list of
                        Inl e \<Rightarrow> Inl e
                      | Inr combined_gt \<Rightarrow> Inr (Some (GenotypeDaskArray combined_gt)))
              else if genotype_array_type = GENOTYPE_ARRAY_CHUNKED config
                then (case concatenate gtz_list of
                        Inl e \<Rightarrow> Inl e
                      | Inr combined_gt \<Rightarrow> Inr (Some (GenotypeChunkedArray combined_gt)))
              else if genotype_array_type = GENOTYPE_ARRAY_NORMAL config
                then (case concatenate gtz_list of
                        Inl e \<Rightarrow> Inl e
                      | Inr combined_gt \<Rightarrow> Inr (Some (GenotypeArray combined_gt)))
              else Inl (ValueError ''Error: Invalid option specified for genotype_array_type.'')))"

definition kinds :: genotype_array_kinds where
  "kinds = \<lparr>GENOTYPE_ARRAY_NORMAL = 0, GENOTYPE_ARRAY_DASK = 1, GENOTYPE_ARRAY_CHUNKED = 2\<rparr>"

section \<open>Array operations used by the PCA pipeline\<close>

text \<open>
  Arrays are lists along their first axis (the variant axis). The numpy operations the
  pipeline applies are written out on lists, with numpy's errors: \<open>compress\<close> and
  \<open>take\<close> select rows by index and raise IndexError for an index beyond the axis, a
  reduction over an empty axis raises ValueError, and element-wise operators need equal
  lengths unless one operand has length one.
\<close>

type_synonym allele_counts = "int list list"

type_synonym dosage = "int list list"

definition count_nonzero :: "bool list \<Rightarrow> nat" where
  "count_nonzero flags = length (filter (\<lambda>b. b) flags)"

definition nonzero :: "bool list \<Rightarrow> nat list" where
  "nonzero flags = filter (\<lambda>i. flags ! i) [0..<length flags]"

definition np_take :: "nat list \<Rightarrow> 'a list \<Rightarrow> error + 'a list" where
  "np_take indices a =
     (if list_all (\<lambda>i. i < length a) indices then Inr (map (\<lambda>i. a ! i) indices)
      else Inl (IndexError ''index out of bounds for axis 0''))"

definition np_compress :: "bool list \<Rightarrow> 'a list \<Rightarrow> error + 'a list" where
  "np_compress condition a = np_take (nonzero condition) a"

definition np_and :: "bool list \<Rightarrow> bool list \<Rightarrow> error + bool list" where
  "np_and xs ys =
     (if length xs = length ys then Inr (map (\<lambda>(x, y). x \<and> y) (zip xs ys))
      else if length xs = 1 then Inr (map (\<lambda>y. hd xs \<and> y) ys)
      else if length ys = 1 then Inr (map (\<lambda>x. x \<and> hd ys) xs)
      else Inl (ValueError ''operands could not be broadcast together''))"

definition min_axis1 :: "int list list \<Rightarrow> error + int list" where
  "min_axis1 rows =
     (if list_ex (\<lambda>r. r = []) rows
      then Inl (ValueError ''zero-size array to reduction operation minimum which has no identity'')
      else Inr (map (\<lambda>r. fold min (tl r) (hd r)) rows))"

definition np_max :: "int list \<Rightarrow> error + int" where
  "np_max xs =
     (if xs = []
      then Inl (ValueError ''zero-size array to reduction operation maximum which has no identity'')
      else Inr (fold max (tl xs) (hd xs)))"

text \<open>
  \<open>np.random.choice(a, size, replace=False)\<close> returns the first \<open>size\<close> entries of a
  random permutation of \<open>range(a)\<close>; the permutation is the random generator's
  contribution and is an argument here.
\<close>

definition random_choice :: "nat list \<Rightarrow> nat \<Rightarrow> int \<Rightarrow> error + nat list" where
  "random_choice permutation a sample_size =
     (if sample_size < 0 then Inl (ValueError ''negative dimensions are not allowed'')
      else if int a < sample_size
        then Inl (ValueError ''Cannot take a larger sample than population when replace is False'')
      else Inr (take (nat sample_size) permutation))"

subsection \<open>Backends\<close>

text \<open>
  The class of the genotype array decides what its methods return: \<open>to_n_alt\<close> gives a
  numpy array for \<open>GenotypeArray\<close>, a chunked array wrapper for \<open>GenotypeChunkedArray\<close>
  and a Dask array for \<open>GenotypeDaskArray\<close>. The first two have a \<open>take\<close> method. A Dask
  array has none (Dask offers \<open>take\<close> as a module function only), so \<open>gn.take(...)\<close>
  on it raises AttributeError, whatever the indices.
\<close>

datatype backend = Numpy | Chunked | Dask

definition handle_backend :: "genotype_handle \<Rightarrow> backend" where
  "handle_backend h =
     (case h of
        GenotypeArray g \<Rightarrow> Numpy
      | GenotypeChunkedArray g \<Rightarrow> Chunked
      | GenotypeDaskArray g \<Rightarrow> Dask)"

definition handle_data :: "genotype_handle \<Rightarrow> genotypes" where
  "handle_data h =
     (case h of
        GenotypeArray g \<Rightarrow> g
      | GenotypeChunkedArray g \<Rightarrow> g
      | GenotypeDaskArray g \<Rightarrow> g)"

definition array_take :: "backend \<Rightarrow> nat list \<Rightarrow> 'a list \<Rightarrow> error + 'a list" where
  "array_take kind indices a =
     (case kind of
        Numpy \<Rightarrow> np_take indices a
      | Chunked \<Rightarrow> np_take indices a
      | Dask \<Rightarrow> Inl (AttributeError ''Array object has no attribute take''))"

subsection \<open>Decimal numbers in printed messages\<close>

fun str_nat :: "nat \<Rightarrow> string" where
  "str_nat n =
     (if n < 10 then [''0123456789'' ! n]
      else str_nat (n div 10) @ [''0123456789'' ! (n mod 10)])"

definition str_int :: "int \<Rightarrow> string" where
  "str_int i = (if i < 0 then CHR ''-'' # str_nat (nat (- i)) else str_nat (nat i))"

section \<open>The PCA pipeline (core.py, Benchmark._benchmark_pca and _pca_ld_prune)\<close>

text \<open>
  The scikit-allel functions are parameters: what they compute is outside the benchmark
  code. \<open>max_allele\<close> gives the highest allele index seen at each variant.
\<close>

record allel =
  count_alleles :: "genotypes \<Rightarrow> allele_counts"
  max_allele :: "allele_counts \<Rightarrow> int list"
  is_singleton :: "allele_counts \<Rightarrow> int \<Rightarrow> bool list"
  to_n_alt :: "genotypes \<Rightarrow> dosage"
  locate_unlinked :: "dosage \<Rightarrow> int \<Rightarrow> int \<Rightarrow> real \<Rightarrow> int \<Rightarrow> bool list"

text \<open>
  \<open>ac.is_singleton(allele)\<close> reads column \<open>allele\<close> of the allele counts, so it raises
  IndexError when the counts have no such column (one-column counts and allele 1, as on
  line 264).
\<close>

definition is_singleton_call :: "allel \<Rightarrow> allele_counts \<Rightarrow> int \<Rightarrow> error + bool list" where
  "is_singleton_call A ac allele =
     (if list_ex (\<lambda>row. int (length row) \<le> allele) ac
      then Inl (IndexError (''index '' @ str_int allele @ '' is out of bounds for axis 1''))
      else Inr (is_singleton A ac allele))"

text \<open>
  The filter of lines 267 to 277: the mask keeps a variant when its highest allele index
  is 1 and the smaller of its first two allele counts exceeds 1.
\<close>

definition pca_filter_mask :: "allel \<Rightarrow> allele_counts \<Rightarrow> error + bool list" where
  "pca_filter_mask A ac =
     (case min_axis1 (map (take 2) ac) of
        Inl e \<Rightarrow> Inl e
      | Inr mins \<Rightarrow> np_and (map (\<lambda>m. m = 1) (max_allele A ac)) (map (\<lambda>m. 1 < m) mins))"

definition filter_warning :: string where
  "filter_warning =
     ''[Exec][PCA] Cannot remove singletons and multiallelic SNPs as no data would remain. Skipping...''"

definition pca_remove_singletons ::
  "allel \<Rightarrow> allele_counts \<Rightarrow> genotypes \<Rightarrow> BenchmarkProfiler \<Rightarrow> world \<Rightarrow>
   (error + genotypes) \<times> BenchmarkProfiler \<times> world" where
  "pca_remove_singletons A ac gt p w =
     (case pca_filter_mask A ac of
        Inl e \<Rightarrow> (Inl e, p, w)
      | Inr flt \<Rightarrow>
          (let flt_count = count_nonzero flt;
               (p1, w1) = start_benchmark ''PCA: Remove singletons and multiallelic SNPs'' p w
           in case (if 0 < flt_count then (np_compress flt gt, w1)
                    else (Inr gt, print filter_warning w1)) of
                (Inl e, w2) \<Rightarrow> (Inl e, p1, w2)
              | (Inr gf, w2) \<Rightarrow>
                  (case end_benchmark p1 w2 of
                     (Inl e, p2, w3) \<Rightarrow> (Inl e, p2, w3)
                   | (Inr u, p2, w3) \<Rightarrow> (Inr gf, p2, w3))))"

text \<open>
  The subsampling of lines 284 to 288. The indices are chosen and sorted with numpy; the
  slice is the \<open>take\<close> method of the dosage array, so it depends on the backend.
\<close>

definition pca_subsample_indices :: "nat list \<Rightarrow> dosage \<Rightarrow> int \<Rightarrow> error + nat list" where
  "pca_subsample_indices permutation gn pca_subset_size =
     (let n = min (int (length gn)) pca_subset_size
      in case random_choice permutation (length gn) n of
           Inl e \<Rightarrow> Inl e
         | Inr vidx \<Rightarrow> Inr (sort vidx))"

definition pca_subsample :: "backend \<Rightarrow> nat list \<Rightarrow> dosage \<Rightarrow> int \<Rightarrow> error + dosage" where
  "pca_subsample kind permutation gn pca_subset_size =
     (case pca_subsample_indices permutation gn pca_subset_size of
        Inl e \<Rightarrow> Inl e
      | Inr vidx \<Rightarrow> array_take kind vidx gn)"

text \<open>\<open>_pca_ld_prune\<close>: the loop over \<open>range(n_iter)\<close>.\<close>

definition ld_prune_message :: "nat \<Rightarrow> int \<Rightarrow> nat \<Rightarrow> int \<Rightarrow> string" where
  "ld_prune_message i n_iter n n_remove =
     ''[Exec][PCA][LD Prune] Iteration '' @ str_nat (i + 1) @ ''/'' @ str_int n_iter @
     '': Retaining '' @ str_nat n @ '' and removing '' @ str_int n_remove @ '' variants.''"

fun ld_prune_loop ::
  "allel \<Rightarrow> int \<Rightarrow> int \<Rightarrow> real \<Rightarrow> int \<Rightarrow> int \<Rightarrow> nat list \<Rightarrow> dosage \<Rightarrow> world \<Rightarrow>
   (error + dosage) \<times> world" where
  "ld_prune_loop A wsize wstep threshold blen n_iter [] gn w = (Inr gn, w)"
| "ld_prune_loop A wsize wstep threshold blen n_iter (i # rest) gn w =
     (let loc_unlinked = locate_unlinked A gn wsize wstep threshold blen;
          n = count_nonzero loc_unlinked;
          n_remove = int (length gn) - int n;
          w1 = print (ld_prune_message i n_iter n n_remove) w
      in case np_compress loc_unlinked gn of
           Inl e \<Rightarrow> (Inl e, w1)
         | Inr gn1 \<Rightarrow> ld_prune_loop A wsize wstep threshold blen n_iter rest gn1 w1)"

definition pca_ld_prune ::
  "allel \<Rightarrow> dosage \<Rightarrow> int \<Rightarrow> int \<Rightarrow> real \<Rightarrow> int \<Rightarrow> world \<Rightarrow> (error + dosage) \<times> world" where
  "pca_ld_prune A gn wsize wstep threshold n_iter w =
     (let blen = wsize * 10
      in ld_prune_loop A wsize wstep threshold blen n_iter [0..<nat n_iter] gn w)"

subsection \<open>A stand-in for scikit-allel\<close>

text \<open>
  Simple total functions in the place of scikit-allel, used to run the definitions on
  concrete inputs: allele counts over the indices 0 and 1, the highest index with a
  positive count, the variants whose count of the given allele is 1, the number of
  non-reference calls per sample, and a linkage mask that keeps every other variant.
\<close>

definition sample_allel :: allel where
  "sample_allel =
     \<lparr>count_alleles = map (\<lambda>v. [int (count_list (concat v) 0), int (count_list (concat v) 1)]),
      max_allele = map (\<lambda>r. fold (\<lambda>i out. if 0 < r ! i then int i else out) [0..<length r] (- 1)),
      is_singleton = (\<lambda>ac a. map (\<lambda>r. r ! nat a = 1) ac),
      to_n_alt = map (map (\<lambda>c. int (length (filter (\<lambda>x. 0 < x) c)))),
      locate_unlinked = (\<lambda>gn wsize wstep threshold blen. map even [0..<length gn])\<rparr>"

section \<open>Sequencing effects\<close>

text \<open>
  A statement is a function from the state to a result and the next state; an exception
  ends the sequence and keeps the state reached. \<open>block\<close> runs statements in order.
\<close>

type_synonym ('a, 's) prog = "'s \<Rightarrow> (error + 'a) \<times> 's"

definition ret :: "'a \<Rightarrow> ('a, 's) prog" where
  "ret x s = (Inr x, s)"

definition raise :: "error \<Rightarrow> ('a, 's) prog" where
  "raise e s = (Inl e, s)"

definition bind :: "('a, 's) prog \<Rightarrow> ('a \<Rightarrow> ('b, 's) prog) \<Rightarrow> ('b, 's) prog" where
  "bind m f s = (case m s of (Inl e, s1) \<Rightarrow> (Inl e, s1) | (Inr x, s1) \<Rightarrow> f x s1)"

fun block :: "(unit, 's) prog list \<Rightarrow> (unit, 's) prog" where
  "block [] = ret ()"
| "block (m # ms) = bind m (\<lambda>u. block ms)"

definition lift_result :: "error + 'a \<Rightarrow> ('a, 's) prog" where
  "lift_result r s = (r, s)"

section \<open>The environment\<close>

text \<open>
  What the operating system and the libraries answer. An answer may depend on the calls
  made before it. A library exception is a message, raised as \<open>ExternalError\<close>.
  \<open>read_vcf\<close> answers with the \<open>variants/numalt\<close> array of the call set it returns, or
  \<open>None\<close> when it returns no call set (a source without variants).
  \<open>data_service.get_genotype_data\<close> is called by core.py but is not among the sources;
  like the \<open>GENOTYPE_ARRAY\<close> constants it is a parameter.
\<close>

record env =
  DEFAULT_CHUNK_LENGTH :: int
  DEFAULT_CHUNK_WIDTH :: int
  read_vcf :: "call list \<Rightarrow> string \<Rightarrow> string list \<Rightarrow> string + int list option"
  vcf_to_zarr :: "call list \<Rightarrow> conversion \<Rightarrow> string option"
  os_path_exists :: "call list \<Rightarrow> string \<Rightarrow> bool"
  os_path_isfile :: "call list \<Rightarrow> string \<Rightarrow> bool"
  os_path_isdir :: "call list \<Rightarrow> string \<Rightarrow> bool"
  zarr_open :: "call list \<Rightarrow> string \<Rightarrow> string + callset"
  get_genotype_data :: "callset \<Rightarrow> int \<Rightarrow> string + genotype_handle option"
  random_permutation :: "call list \<Rightarrow> nat \<Rightarrow> nat list"
  pca :: "dosage \<Rightarrow> int \<Rightarrow> string option \<Rightarrow> string option"
  randomized_pca :: "dosage \<Rightarrow> int \<Rightarrow> string option \<Rightarrow> string option"
  scikit :: allel
  array_kinds :: genotype_array_kinds

section \<open>Conversion to Zarr (data_service.py, convert_to_zarr)\<close>

text \<open>
  The conversion configuration is read through the attributes \<open>fields\<close>, \<open>alt_number\<close>,
  \<open>chunk_length\<close>, \<open>chunk_width\<close>, \<open>compressor\<close> and the three Blosc settings.
\<close>

record VCFtoZarrConfigurationRepresentation =
  enabled :: bool
  fields' :: "string list option"
  alt_number :: "int option"
  chunk_length :: "int option"
  chunk_width :: "int option"
  compressor :: string
  blosc_compression_algorithm :: string
  blosc_compression_level :: int
  blosc_shuffle_mode :: int

text \<open>
  The state of \<open>convert_to_zarr\<close>: the recorder it was given, if any, and the world.
  The statements below are the ones the function is made of; \<open>determine_alt_number\<close>
  is its lines 313 to 338.
\<close>

type_synonym pstate = "BenchmarkProfiler option \<times> world"

definition say :: "string \<Rightarrow> (unit, pstate) prog" where
  "say line = (\<lambda>(bp, w). (Inr (), (bp, print line w)))"

definition profiler_start :: "string \<Rightarrow> (unit, pstate) prog" where
  "profiler_start name =
     (\<lambda>(bp, w). case bp of
        None \<Rightarrow> (Inr (), (None, w))
      | Some p \<Rightarrow> (case start_benchmark name p w of (p1, w1) \<Rightarrow> (Inr (), (Some p1, w1))))"

definition profiler_end :: "(unit, pstate) prog" where
  "profiler_end =
     (\<lambda>(bp, w). case bp of
        None \<Rightarrow> (Inr (), (None, w))
      | Some p \<Rightarrow> (case end_benchmark p w of (r, p1, w1) \<Rightarrow> (r, (Some p1, w1))))"

definition allel_read_vcf :: "env \<Rightarrow> string \<Rightarrow> string list \<Rightarrow> (int list option, pstate) prog" where
  "allel_read_vcf E path flds =
     (\<lambda>(bp, w).
        (case read_vcf E (calls w) path flds of
           Inl msg \<Rightarrow> Inl (ExternalError msg)
         | Inr callset \<Rightarrow> Inr callset,
         (bp, w\<lparr>calls := calls w @ [ReadVcf path flds]\<rparr>)))"

definition allel_vcf_to_zarr :: "env \<Rightarrow> conversion \<Rightarrow> (unit, pstate) prog" where
  "allel_vcf_to_zarr E c =
     (\<lambda>(bp, w).
        (case vcf_to_zarr E (calls w) c of
           Some msg \<Rightarrow> Inl (ExternalError msg)
         | None \<Rightarrow> Inr (),
         (bp, w\<lparr>calls := calls w @ [VcfToZarr c]\<rparr>)))"

text \<open>\<open>callset['variants/numalt']\<close> raises TypeError when the call set is \<open>None\<close>.\<close>

definition numalt_of :: "int list option \<Rightarrow> (int list, pstate) prog" where
  "numalt_of callset =
     (case callset of
        None \<Rightarrow> raise (TypeError ''NoneType object is not subscriptable'')
      | Some numalt \<Rightarrow> ret numalt)"

definition determine_alt_number ::
  "env \<Rightarrow> string \<Rightarrow> VCFtoZarrConfigurationRepresentation \<Rightarrow> (int, pstate) prog" where
  "determine_alt_number E input_vcf_path conversion_config =
     (case alt_number conversion_config of
        None \<Rightarrow>
          bind (say ''[VCF-Zarr] Determining maximum number of ALT alleles by scaling all variants in the VCF file.'') (\<lambda>u.
          bind (profiler_start ''Read VCF file into memory for alt number'') (\<lambda>u.
          bind (allel_read_vcf E input_vcf_path [''numalt'']) (\<lambda>callset.
          bind profiler_end (\<lambda>u.
          bind (numalt_of callset) (\<lambda>numalt.
          bind (profiler_start ''Determine maximum alt number'') (\<lambda>u.
          bind (lift_result (np_max numalt)) (\<lambda>alt.
          bind profiler_end (\<lambda>u.
          ret alt))))))))
      | Some configured \<Rightarrow>
          bind (say ''[VCF-Zarr] Using alt number provided in configuration.'') (\<lambda>u.
          ret configured))"

definition make_compressor :: "VCFtoZarrConfigurationRepresentation \<Rightarrow> (codec, pstate) prog" where
  "make_compressor conversion_config =
     (if compressor conversion_config = ''Blosc''
      then ret (Blosc (blosc_compression_algorithm conversion_config)
                  (blosc_compression_level conversion_config)
                  (blosc_shuffle_mode conversion_config))
      else raise (ValueError ''Unexpected compressor type specified.''))"

text \<open>Lines 341 to 368: chunk geometry, compressor, and the conversion itself.\<close>

definition write_zarr ::
  "env \<Rightarrow> string \<Rightarrow> string \<Rightarrow> VCFtoZarrConfigurationRepresentation \<Rightarrow> int \<Rightarrow>
   (unit, pstate) prog" where
  "write_zarr E input_vcf_path output_zarr_path cfg alt =
     bind (ret (case chunk_length cfg of None \<Rightarrow> DEFAULT_CHUNK_LENGTH E | Some n \<Rightarrow> n)) (\<lambda>clen.
     bind (say (''[VCF-Zarr] Chunk length: '' @ str_int clen)) (\<lambda>u.
     bind (ret (case chunk_width cfg of None \<Rightarrow> DEFAULT_CHUNK_WIDTH E | Some n \<Rightarrow> n)) (\<lambda>cwid.
     bind (say (''[VCF-Zarr] Chunk width: '' @ str_int cwid)) (\<lambda>u.
     bind (make_compressor cfg) (\<lambda>codec.
     bind (profiler_start ''Convert VCF to Zarr'') (\<lambda>u.
     bind (allel_vcf_to_zarr E
             \<lparr>source_path = input_vcf_path, destination_path = output_zarr_path,
              alt_ceiling = alt, selected_fields = fields' cfg, compression = codec,
              rows_per_chunk = clen, columns_per_chunk = cwid\<rparr>) (\<lambda>u.
     profiler_end)))))))"

definition convert_to_zarr ::
  "env \<Rightarrow> string \<Rightarrow> string \<Rightarrow> VCFtoZarrConfigurationRepresentation option \<Rightarrow>
   (unit, pstate) prog" where
  "convert_to_zarr E input_vcf_path output_zarr_path conversion_config =
     (case conversion_config of
        None \<Rightarrow> ret ()
      | Some cfg \<Rightarrow>
          bind (determine_alt_number E input_vcf_path cfg) (\<lambda>alt.
          bind (say (''[VCF-Zarr] Alt number: '' @ str_int alt)) (\<lambda>u.
          write_zarr E input_vcf_path output_zarr_path cfg alt)))"

subsection \<open>A stand-in environment\<close>

text \<open>
  An environment used to run the definitions on concrete inputs: one readable source,
  \<open>data/sample.vcf\<close>, whose three variants have 1, 3 and 2 alternate alleles, and one
  source with a header and no variants, \<open>data/empty.vcf\<close>, for which \<open>read_vcf\<close> returns
  \<open>None\<close>; every directory exists; every other library call succeeds.
\<close>

definition sample_callset :: callset where
  "sample_callset = [(''calldata'', [(''GT'', [[[0, 1], [1, 1]], [[0, 0], [0, 1]]])])]"

definition sample_env :: env where
  "sample_env =
     \<lparr>DEFAULT_CHUNK_LENGTH = 65536, DEFAULT_CHUNK_WIDTH = 64,
      read_vcf = (\<lambda>hist path flds.
         if path = ''data/sample.vcf'' then Inr (Some [1, 3, 2])
         else if path = ''data/empty.vcf'' then Inr None
         else Inl ''No such file''),
      vcf_to_zarr = (\<lambda>hist c. None),
      os_path_exists = (\<lambda>hist path. True),
      os_path_isfile = (\<lambda>hist path. True),
      os_path_isdir = (\<lambda>hist path. True),
      zarr_open = (\<lambda>hist path. Inr sample_callset),
      get_genotype_data = (\<lambda>cs ty.
         case get_genotype_array kinds cs ty of
           Inl e \<Rightarrow> Inl ''array rejected''
         | Inr h \<Rightarrow> Inr h),
      random_permutation = (\<lambda>hist n. rev [0..<n]),
      pca = (\<lambda>gn n scaler. None),
      randomized_pca = (\<lambda>gn n scaler. None),
      scikit = sample_allel,
      array_kinds = kinds\<rparr>"

definition sample_config :: VCFtoZarrConfigurationRepresentation where
  "sample_config =
     \<lparr>enabled = True, fields' = None, alt_number = None, chunk_length = None,
      chunk_width = None, compressor = ''Blosc'', blosc_compression_algorithm = ''zstd'',
      blosc_compression_level = 1, blosc_shuffle_mode = - 1\<rparr>"

text \<open>The recorder handed to a function is idle when it is absent or not running.\<close>

definition idle :: "BenchmarkProfiler option \<Rightarrow> bool" where
  "idle bp = (case bp of None \<Rightarrow> True | Some p \<Rightarrow> \<not> benchmark_running p)"

text \<open>
  The conversion request that lines 341 to 365 build from a configuration and an
  alt-allele ceiling.
\<close>

definition requested ::
  "env \<Rightarrow> string \<Rightarrow> string \<Rightarrow> VCFtoZarrConfigurationRepresentation \<Rightarrow> int \<Rightarrow> conversion"
  where
  "requested E input target cfg alt =
     \<lparr>source_path = input, destination_path = target,
      alt_ceiling = alt, selected_fields = fields' cfg,
      compression = Blosc (blosc_compression_algorithm cfg)
        (blosc_compression_level cfg) (blosc_shuffle_mode cfg),
      rows_per_chunk = (case chunk_length cfg of None \<Rightarrow> DEFAULT_CHUNK_LENGTH E | Some n \<Rightarrow> n),
      columns_per_chunk = (case chunk_width cfg of None \<Rightarrow> DEFAULT_CHUNK_WIDTH E | Some n \<Rightarrow> n)\<rparr>"

section \<open>The benchmark orchestrator (core.py, class Benchmark)\<close>

text \<open>
  The benchmark and directory configurations are read through the attributes below; their
  classes are not among the sources. A \<open>Benchmark\<close> object keeps both, its recorder and
  the two fields \<open>run_benchmark\<close> assigns. Its label is kept by the recorder.
\<close>

record BenchmarkConfigurationRepresentation =
  benchmark_number_runs :: int
  benchmark_data_input :: string
  benchmark_dataset :: string
  benchmark_aggregations :: bool
  benchmark_pca :: bool
  genotype_array_type :: int
  vcf_to_zarr_config :: "VCFtoZarrConfigurationRepresentation option"
  pca_subset_size :: int
  pca_ld_enabled :: bool
  pca_ld_pruning_size :: int
  pca_ld_pruning_step :: int
  pca_ld_pruning_threshold :: real
  pca_ld_pruning_number_iterations :: int
  pca_number_components :: int
  pca_data_scaler :: "string option"

record DataDirectoriesConfigurationRepresentation =
  vcf_dir :: string
  zarr_dir_setup :: string
  zarr_dir_benchmark :: string

record Benchmark =
  bench_conf :: "BenchmarkConfigurationRepresentation option"
  data_dirs :: "DataDirectoriesConfigurationRepresentation option"
  benchmark_profiler :: BenchmarkProfiler
  benchmark_zarr_dir :: string
  benchmark_zarr_file :: string

definition Benchmark_init ::
  "BenchmarkConfigurationRepresentation option \<Rightarrow>
   DataDirectoriesConfigurationRepresentation option \<Rightarrow> string \<Rightarrow> Benchmark" where
  "Benchmark_init conf dirs label =
     \<lparr>bench_conf = conf, data_dirs = dirs,
      benchmark_profiler = BenchmarkProfiler_init label,
      benchmark_zarr_dir = [], benchmark_zarr_file = []\<rparr>"

type_synonym bstate = "Benchmark \<times> world"

subsection \<open>Statements of the methods\<close>

definition start :: "string \<Rightarrow> (unit, bstate) prog" where
  "start name =
     (\<lambda>(b, w). case start_benchmark name (benchmark_profiler b) w of
        (p1, w1) \<Rightarrow> (Inr (), (b\<lparr>benchmark_profiler := p1\<rparr>, w1)))"

definition finish :: "(unit, bstate) prog" where
  "finish =
     (\<lambda>(b, w). case end_benchmark (benchmark_profiler b) w of
        (r, p1, w1) \<Rightarrow> (r, (b\<lparr>benchmark_profiler := p1\<rparr>, w1)))"

definition tell :: "string \<Rightarrow> (unit, bstate) prog" where
  "tell line = (\<lambda>(b, w). (Inr (), (b, print line w)))"

definition assign :: "(Benchmark \<Rightarrow> Benchmark) \<Rightarrow> (unit, bstate) prog" where
  "assign f = (\<lambda>(b, w). (Inr (), (f b, w)))"

text \<open>
  A call into the operating system or a library: it is appended to the trace, and the
  answer is the environment's for the calls made before.
\<close>

definition external :: "call \<Rightarrow> (call list \<Rightarrow> string + 'a) \<Rightarrow> ('a, bstate) prog" where
  "external c answer =
     (\<lambda>(b, w).
        (case answer (calls w) of Inl msg \<Rightarrow> Inl (ExternalError msg) | Inr x \<Rightarrow> Inr x,
         (b, w\<lparr>calls := calls w @ [c]\<rparr>)))"

definition on_world :: "(world \<Rightarrow> (error + 'a) \<times> world) \<Rightarrow> ('a, bstate) prog" where
  "on_world f = (\<lambda>(b, w). case f w of (r, w1) \<Rightarrow> (r, (b, w1)))"

definition with_profiler :: "('a, pstate) prog \<Rightarrow> ('a, bstate) prog" where
  "with_profiler m =
     (\<lambda>(b, w). case m (Some (benchmark_profiler b), w) of
        (r, (bp, w1)) \<Rightarrow>
          (r, (case bp of None \<Rightarrow> b | Some p \<Rightarrow> b\<lparr>benchmark_profiler := p\<rparr>, w1)))"

definition exit :: "int \<Rightarrow> ('a, bstate) prog" where
  "exit code = raise (SystemExit code)"

subsection \<open>Paths and directories\<close>

text \<open>\<open>os.path.join\<close> of two components, and the slice that drops a four-character suffix.\<close>

definition os_path_join :: "string \<Rightarrow> string \<Rightarrow> string" where
  "os_path_join a b =
     (if b \<noteq> [] \<and> hd b = CHR ''/'' then b
      else if a = [] \<or> last a = CHR ''/'' then a @ b
      else a @ ''/'' @ b)"

definition drop_suffix4 :: "string \<Rightarrow> string" where
  "drop_suffix4 s =
     (let n = int (length s); k = n - 4
      in if 0 \<le> k then take (nat k) s else take (nat (n + k)) s)"

definition remove_directory_tree :: "env \<Rightarrow> string \<Rightarrow> (unit, bstate) prog" where
  "remove_directory_tree E path =
     bind (external (PathExists path) (\<lambda>h. Inr (os_path_exists E h path))) (\<lambda>found.
     if found then external (Rmtree path) (\<lambda>h. Inr ()) else ret ())"

subsection \<open>The timed steps\<close>

text \<open>
  The methods below are reached from \<open>run_benchmark\<close> only, after its test that both
  configurations are set; they take the two configurations as arguments.
\<close>

definition benchmark_convert_to_zarr ::
  "env \<Rightarrow> BenchmarkConfigurationRepresentation \<Rightarrow>
   DataDirectoriesConfigurationRepresentation \<Rightarrow> (unit, bstate) prog" where
  "benchmark_convert_to_zarr E conf dirs =
     bind (assign (\<lambda>b. b\<lparr>benchmark_zarr_dir := zarr_dir_benchmark dirs\<rparr>)) (\<lambda>u.
     bind (ret (benchmark_dataset conf)) (\<lambda>input_vcf_file.
     bind (ret (os_path_join (vcf_dir dirs) input_vcf_file)) (\<lambda>input_vcf_path.
     bind (external (PathIsfile input_vcf_path) (\<lambda>h. Inr (os_path_isfile E h input_vcf_path)))
       (\<lambda>present.
     if present
     then bind (ret (drop_suffix4 input_vcf_file)) (\<lambda>output_zarr_file.
          bind (ret (os_path_join (zarr_dir_benchmark dirs) output_zarr_file)) (\<lambda>output_zarr_path.
          bind (with_profiler
                  (convert_to_zarr E input_vcf_path output_zarr_path (vcf_to_zarr_config conf)))
            (\<lambda>u.
          assign (\<lambda>b. b\<lparr>benchmark_zarr_file := output_zarr_file\<rparr>))))
     else block
       [tell ''[Exec] Error: Dataset specified in configuration file does not exist. Exiting...'',
        tell (''  - Dataset file specified in configuration: '' @ input_vcf_file),
        tell (''  - Expected file location: '' @ input_vcf_path),
        exit 1]))))"

definition benchmark_load_zarr_dataset :: "env \<Rightarrow> string \<Rightarrow> (callset, bstate) prog" where
  "benchmark_load_zarr_dataset E zarr_path =
     bind (start ''Load Zarr Dataset'') (\<lambda>u.
     bind (external (ZarrOpen zarr_path) (\<lambda>h. zarr_open E h zarr_path)) (\<lambda>callset.
     bind finish (\<lambda>u.
     ret callset)))"

definition benchmark_create_genotype_array ::
  "env \<Rightarrow> BenchmarkConfigurationRepresentation \<Rightarrow> callset \<Rightarrow>
   (genotype_handle option, bstate) prog" where
  "benchmark_create_genotype_array E conf callset =
     bind (ret (genotype_array_type conf)) (\<lambda>kind.
     bind (start ''Create Genotype Array'') (\<lambda>u.
     bind (lift_result (case get_genotype_data E callset kind of
                          Inl msg \<Rightarrow> Inl (ExternalError msg) | Inr gt \<Rightarrow> Inr gt)) (\<lambda>gt.
     bind finish (\<lambda>u.
     ret gt))))"

text \<open>
  A method call on the genotype array needs the array: AttributeError when it is
  \<open>None\<close>, and otherwise the receiver, with its class, is at hand. The aggregations
  discard what the methods return, so only the call is modelled. \<open>compute\<close> forces a
  Dask result; what the methods of the other two classes return has no such method.
\<close>

definition method_call ::
  "genotype_handle option \<Rightarrow> string \<Rightarrow> (genotype_handle, bstate) prog" where
  "method_call gt name =
     (case gt of
        None \<Rightarrow> raise (AttributeError (''NoneType object has no attribute '' @ name))
      | Some h \<Rightarrow> ret h)"

definition compute :: "genotype_handle \<Rightarrow> (genotype_handle, bstate) prog" where
  "compute h =
     (if handle_backend h = Dask then ret h
      else raise (AttributeError ''object has no attribute compute''))"

definition aggregation ::
  "env \<Rightarrow> BenchmarkConfigurationRepresentation \<Rightarrow> genotype_handle option \<Rightarrow> string \<Rightarrow>
   string \<Rightarrow> (unit, bstate) prog" where
  "aggregation E conf gt name method =
     bind (if genotype_array_type conf = GENOTYPE_ARRAY_DASK (array_kinds E)
           then bind (start name) (\<lambda>u. bind (method_call gt method) compute)
           else bind (start name) (\<lambda>u. method_call gt method)) (\<lambda>counted.
     finish)"

definition benchmark_simple_aggregations ::
  "env \<Rightarrow> BenchmarkConfigurationRepresentation \<Rightarrow> genotype_handle option \<Rightarrow>
   (unit, bstate) prog" where
  "benchmark_simple_aggregations E conf gt =
     block
       [aggregation E conf gt ''Allele Count (All Samples)'' ''count_alleles'',
        aggregation E conf gt ''Genotype Count: Heterozygous per Variant'' ''count_het'',
        aggregation E conf gt ''Genotype Count: Homozygous per Variant'' ''count_hom'',
        aggregation E conf gt ''Genotype Count: Heterozygous per Sample'' ''count_het'',
        aggregation E conf gt ''Genotype Count: Homozygous per Sample'' ''count_hom'']"

subsection \<open>The PCA benchmark\<close>

text \<open>
  \<open>_benchmark_pca\<close>, in its source order (primed: the configuration has a field of the
  same name). The filter, the subsampling and the pruning are
  the steps defined above; here they run with the benchmark's recorder and environment.
\<close>

definition remove_singletons :: "allel \<Rightarrow> allele_counts \<Rightarrow> genotypes \<Rightarrow> (genotypes, bstate) prog"
  where
  "remove_singletons A ac g =
     (\<lambda>(b, w). case pca_remove_singletons A ac g (benchmark_profiler b) w of
        (r, p1, w1) \<Rightarrow> (r, (b\<lparr>benchmark_profiler := p1\<rparr>, w1)))"

definition subsample ::
  "env \<Rightarrow> BenchmarkConfigurationRepresentation \<Rightarrow> backend \<Rightarrow> dosage \<Rightarrow>
   (dosage, bstate) prog" where
  "subsample E conf kind gn =
     bind (ret (min (int (length gn)) (pca_subset_size conf))) (\<lambda>n.
     bind (external (RandomChoice (length gn) n)
             (\<lambda>h. Inr (random_permutation E h (length gn)))) (\<lambda>permutation.
     lift_result (pca_subsample kind permutation gn (pca_subset_size conf))))"

definition ld_prune_step ::
  "env \<Rightarrow> BenchmarkConfigurationRepresentation \<Rightarrow> dosage \<Rightarrow> (dosage, bstate) prog" where
  "ld_prune_step E conf gnr =
     (if pca_ld_enabled conf
      then (if genotype_array_type conf \<noteq> GENOTYPE_ARRAY_DASK (array_kinds E)
            then bind (start ''PCA: Apply LD pruning'') (\<lambda>u.
                 bind (on_world (pca_ld_prune (scikit E) gnr (pca_ld_pruning_size conf)
                         (pca_ld_pruning_step conf) (pca_ld_pruning_threshold conf)
                         (pca_ld_pruning_number_iterations conf))) (\<lambda>gnu.
                 bind finish (\<lambda>u.
                 ret gnu)))
            else bind (tell ''[Exec][PCA] Cannot apply LD pruning because Dask genotype arrays do not support this operation.'')
                   (\<lambda>u. ret gnr))
      else bind (tell ''[Exec][PCA] LD pruning disabled. Skipping this operation.'')
             (\<lambda>u. ret gnr))"

definition scaler_name :: "string option \<Rightarrow> string" where
  "scaler_name scaler = (case scaler of None \<Rightarrow> ''none'' | Some s \<Rightarrow> s)"

definition library_outcome :: "string option \<Rightarrow> (unit, bstate) prog" where
  "library_outcome r = (case r of None \<Rightarrow> ret () | Some msg \<Rightarrow> raise (ExternalError msg))"

definition benchmark_pca' ::
  "env \<Rightarrow> BenchmarkConfigurationRepresentation \<Rightarrow> genotype_handle option \<Rightarrow>
   (unit, bstate) prog" where
  "benchmark_pca' E conf gt =
     bind (start ''PCA: Count alleles'') (\<lambda>u.
     bind (method_call gt ''count_alleles'') (\<lambda>h.
     bind (ret (count_alleles (scikit E) (handle_data h))) (\<lambda>ac.
     bind finish (\<lambda>u.
     bind (start ''PCA: Count multiallelic SNPs'') (\<lambda>u.
     bind (ret (count_nonzero (map (\<lambda>m. 1 < m) (max_allele (scikit E) ac))))
       (\<lambda>num_multiallelic_snps.
     bind finish (\<lambda>u.
     bind (start ''PCA: Count biallelic singletons'') (\<lambda>u.
     bind (lift_result (is_singleton_call (scikit E) ac 1)) (\<lambda>single.
     bind (lift_result (np_and (map (\<lambda>m. m = 1) (max_allele (scikit E) ac)) single))
       (\<lambda>both.
     bind (ret (count_nonzero both)) (\<lambda>num_biallelic_singletons.
     bind finish (\<lambda>u.
     bind (remove_singletons (scikit E) ac (handle_data h)) (\<lambda>gf.
     bind (start ''PCA: Transform genotype data for PCA'') (\<lambda>u.
     bind (ret (to_n_alt (scikit E) gf)) (\<lambda>gn.
     bind finish (\<lambda>u.
     bind (subsample E conf (handle_backend h) gn) (\<lambda>gnr.
     bind (ld_prune_step E conf gnr) (\<lambda>gnu.
     bind (start ''PCA: Move data set to memory'') (\<lambda>u.
     bind finish (\<lambda>u.
     bind (start (''PCA: Run conventional PCA analysis (scaler: '' @
                  scaler_name (pca_data_scaler conf) @ '')'')) (\<lambda>u.
     bind (library_outcome (pca E gnu (pca_number_components conf) (pca_data_scaler conf))) (\<lambda>u.
     bind finish (\<lambda>u.
     bind (start (''PCA: Run randomized PCA analysis (scaler: '' @
                  scaler_name (pca_data_scaler conf) @ '')'')) (\<lambda>u.
     bind (library_outcome
             (randomized_pca E gnu (pca_number_components conf) (pca_data_scaler conf))) (\<lambda>u.
     finish)))))))))))))))))))))))))"

subsection \<open>The run loop\<close>

text \<open>
  \<open>resolve_mode\<close> is lines 123 to 139 of \<open>run_benchmark\<close>, \<open>use_dataset\<close> lines 141 to
  161, \<open>run_once\<close> the body of the loop and \<open>run_loop\<close> the loop over
  \<open>range(1, benchmark_number_runs + 1)\<close>.
\<close>

definition resolve_mode ::
  "env \<Rightarrow> BenchmarkConfigurationRepresentation \<Rightarrow>
   DataDirectoriesConfigurationRepresentation \<Rightarrow> (unit, bstate) prog" where
  "resolve_mode E conf dirs =
     (if benchmark_data_input conf = ''vcf''
      then bind (assign (\<lambda>b. b\<lparr>benchmark_zarr_dir := zarr_dir_benchmark dirs\<rparr>)) (\<lambda>u.
           benchmark_convert_to_zarr E conf dirs)
      else if benchmark_data_input conf = ''zarr''
      then bind (assign (\<lambda>b. b\<lparr>benchmark_zarr_dir := zarr_dir_setup dirs\<rparr>)) (\<lambda>u.
           assign (\<lambda>b. b\<lparr>benchmark_zarr_file := benchmark_dataset conf\<rparr>))
      else block
        [tell ''[Exec] Error: Invalid option supplied for benchmark data input format.'',
         tell ''  - Expected data input formats: vcf, zarr'',
         tell (''  - Provided data input format: '' @ benchmark_data_input conf),
         exit 1])"

definition use_dataset ::
  "env \<Rightarrow> BenchmarkConfigurationRepresentation \<Rightarrow> string \<Rightarrow> (unit, bstate) prog" where
  "use_dataset E conf benchmark_zarr_path =
     bind (if benchmark_zarr_path \<noteq> []
           then external (PathIsdir benchmark_zarr_path)
                  (\<lambda>h. Inr (os_path_isdir E h benchmark_zarr_path))
           else ret False) (\<lambda>usable.
     if usable
     then bind (benchmark_load_zarr_dataset E benchmark_zarr_path) (\<lambda>callset.
          bind (benchmark_create_genotype_array E conf callset) (\<lambda>gt.
          bind (if benchmark_aggregations conf
                then benchmark_simple_aggregations E conf gt else ret ()) (\<lambda>u.
          if benchmark_pca conf then benchmark_pca' E conf gt else ret ())))
     else block
       [tell ''[Exec] Error: Zarr dataset could not be found for benchmarking.'',
        tell (''  - Zarr dataset location: '' @ benchmark_zarr_path),
        exit 1])"

definition run_once ::
  "env \<Rightarrow> BenchmarkConfigurationRepresentation \<Rightarrow>
   DataDirectoriesConfigurationRepresentation \<Rightarrow> int \<Rightarrow> (unit, bstate) prog" where
  "run_once E conf dirs run =
     bind (remove_directory_tree E (zarr_dir_benchmark dirs)) (\<lambda>u.
     bind (assign (\<lambda>b. b\<lparr>benchmark_profiler := set_run_number run (benchmark_profiler b)\<rparr>))
       (\<lambda>u.
     bind (resolve_mode E conf dirs) (\<lambda>u.
     (\<lambda>(b, w). use_dataset E conf
        (os_path_join (benchmark_zarr_dir b) (benchmark_zarr_file b)) (b, w)))))"

fun run_loop ::
  "env \<Rightarrow> BenchmarkConfigurationRepresentation \<Rightarrow>
   DataDirectoriesConfigurationRepresentation \<Rightarrow> int list \<Rightarrow> (unit, bstate) prog" where
  "run_loop E conf dirs [] = ret ()"
| "run_loop E conf dirs (run # rest) =
     bind (run_once E conf dirs run) (\<lambda>u. run_loop E conf dirs rest)"

definition run_benchmark :: "env \<Rightarrow> (unit, bstate) prog" where
  "run_benchmark E =
     (\<lambda>(b, w). case bench_conf b of
        None \<Rightarrow> (Inr (), (b, w))
      | Some conf \<Rightarrow>
          (case data_dirs b of
             None \<Rightarrow> (Inr (), (b, w))
           | Some dirs \<Rightarrow> run_loop E conf dirs [1..benchmark_number_runs conf] (b, w)))"

subsection \<open>Reading the observations of a session\<close>

text \<open>
  The run number a data line carries, and the calls by which \<open>remove_directory_tree\<close>
  wipes a directory.
\<close>

definition row_run_number :: "cell list \<Rightarrow> int option" where
  "row_run_number row = (case row of [t, Number n, operation, seconds] \<Rightarrow> n | _ \<Rightarrow> None)"

fun is_wipe :: "call \<Rightarrow> bool" where
  "is_wipe (PathExists p) = True"
| "is_wipe (Rmtree p) = True"
| "is_wipe c = False"

section \<open>What a step may change\<close>

text \<open>
  Invariants used to reason about a run. Both kinds of state are seen as a recorder, if
  any, and a world. \<open>frame s t\<close>: from \<open>s\<close> to \<open>t\<close> the recorder keeps its label and
  run number, its log gains only data lines that carry this run number, and the trace
  gains no wipe call. A statement is \<open>steady\<close> when it always relates its start to its
  end by \<open>frame\<close>; it \<open>closes\<close> when every normal end leaves the recorder idle, and
  \<open>settles\<close> when every normal end from an idle recorder does; it \<open>emits\<close> when every
  normal end has added a data line.
\<close>

definition view :: "bstate \<Rightarrow> pstate" where
  "view s = (Some (benchmark_profiler (fst s)), snd s)"

definition rows_of :: "pstate \<Rightarrow> cell list list" where
  "rows_of s =
     (case fst s of
        None \<Rightarrow> []
      | Some p \<Rightarrow> data_lines (log_of (snd s) (benchmark_label p)))"

definition run_of :: "pstate \<Rightarrow> int option" where
  "run_of s = (case fst s of None \<Rightarrow> None | Some p \<Rightarrow> run_number (results p))"

definition label_of :: "pstate \<Rightarrow> string option" where
  "label_of s = (case fst s of None \<Rightarrow> None | Some p \<Rightarrow> Some (benchmark_label p))"

definition frame :: "pstate \<Rightarrow> pstate \<Rightarrow> bool" where
  "frame s t =
     (label_of t = label_of s \<and> run_of t = run_of s \<and>
      (\<exists>rows. rows_of t = rows_of s @ rows \<and>
              list_all (\<lambda>row. row_run_number row = run_of s) rows) \<and>
      (\<exists>cs. calls (snd t) = calls (snd s) @ cs \<and> list_all (\<lambda>c. \<not> is_wipe c) cs))"


definition closes :: "('s \<Rightarrow> pstate) \<Rightarrow> ('a, 's) prog \<Rightarrow> bool" where
  "closes v m = (\<forall>s x t. m s = (Inr x, t) \<longrightarrow> idle (fst (v t)))"

definition settles :: "('s \<Rightarrow> pstate) \<Rightarrow> ('a, 's) prog \<Rightarrow> bool" where
  "settles v m = (\<forall>s x t. idle (fst (v s)) \<longrightarrow> m s = (Inr x, t) \<longrightarrow> idle (fst (v t)))"


subsection \<open>The shape of a session\<close>



text \<open>
  A benchmark configuration and data directories for the stand-in environment: two runs
  on the dataset converted ahead of the benchmark, with the aggregations.
\<close>

definition sample_bench :: BenchmarkConfigurationRepresentation where
  "sample_bench =
     \<lparr>benchmark_number_runs = 2, benchmark_data_input = ''zarr'',
      benchmark_dataset = ''sample.zarr'', benchmark_aggregations = True,
      benchmark_pca = False, genotype_array_type = 0, vcf_to_zarr_config = None,
      pca_subset_size = 50, pca_ld_enabled = False, pca_ld_pruning_size = 100,
      pca_ld_pruning_step = 20, pca_ld_pruning_threshold = 0.01,
      pca_ld_pruning_number_iterations = 2, pca_number_components = 10,
      pca_data_scaler = None\<rparr>"

definition sample_dirs :: DataDirectoriesConfigurationRepresentation where
  "sample_dirs =
     \<lparr>vcf_dir = ''data'', zarr_dir_setup = ''zarr/setup'',
      zarr_dir_benchmark = ''zarr/benchmark''\<rparr>"

section \<open>Properties of the timing recorder\<close>

lemma data_lines_append: "data_lines (xs @ ys) = data_lines xs @ data_lines ys"
  by (induction xs rule: data_lines.induct) simp_all

lemma record_runtime_new:
  "start_time r = Some t \<Longrightarrow> files w fn = None \<Longrightarrow>
   record_runtime r fn w =
     (Inr (), w\<lparr>files := (files w)(fn \<mapsto> [HeaderLine psv_columns, DataLine (psv_row r)])\<rparr>)"
  by (simp add: record_runtime_def to_pandas_def to_dict_def to_csv_def isfile_def
      psv_columns_def psv_row_def)

lemma record_runtime_old:
  "start_time r = Some t \<Longrightarrow> files w fn = Some old \<Longrightarrow>
   record_runtime r fn w =
     (Inr (), w\<lparr>files := (files w)(fn \<mapsto> old @ [DataLine (psv_row r)])\<rparr>)"
  by (simp add: record_runtime_def to_pandas_def to_dict_def to_csv_def isfile_def
      psv_columns_def psv_row_def)

lemma record_all_old:
  "\<forall>r\<in>set rs. start_time r \<noteq> None \<Longrightarrow> files w fn = Some old \<Longrightarrow>
   record_all rs fn w =
     (Inr (), w\<lparr>files := (files w)(fn \<mapsto> old @ map (\<lambda>r. DataLine (psv_row r)) rs)\<rparr>)"
proof (induction rs arbitrary: w old)
  case Nil
  then show ?case by (simp add: fun_upd_idem)
next
  case (Cons r rs)
  then obtain t where t: "start_time r = Some t" by auto
  let ?w1 = "w\<lparr>files := (files w)(fn \<mapsto> old @ [DataLine (psv_row r)])\<rparr>"
  have step: "record_runtime r fn w = (Inr (), ?w1)"
    using record_runtime_old[OF t Cons.prems(2)] .
  have rest: "record_all rs fn ?w1 =
      (Inr (), ?w1\<lparr>files := (files ?w1)(fn \<mapsto>
         (old @ [DataLine (psv_row r)]) @ map (\<lambda>r. DataLine (psv_row r)) rs)\<rparr>)"
    using Cons.prems(1) by (intro Cons.IH) simp_all
  have eq: "?w1\<lparr>files := (files ?w1)(fn \<mapsto>
         (old @ [DataLine (psv_row r)]) @ map (\<lambda>r. DataLine (psv_row r)) rs)\<rparr>
     = w\<lparr>files := (files w)(fn \<mapsto> old @ map (\<lambda>r. DataLine (psv_row r)) (r # rs))\<rparr>"
    by (cases w) simp
  have "record_all (r # rs) fn w = record_all rs fn ?w1" by (simp add: step)
  then show ?case unfolding rest eq .
qed

lemma record_all_new:
  assumes "\<forall>r\<in>set rs. start_time r \<noteq> None" and "rs \<noteq> []" and "files w fn = None"
  shows "record_all rs fn w =
     (Inr (), w\<lparr>files := (files w)(fn \<mapsto>
        HeaderLine psv_columns # map (\<lambda>r. DataLine (psv_row r)) rs)\<rparr>)"
proof (cases rs)
  case Nil
  with assms(2) show ?thesis by simp
next
  case (Cons r rs')
  obtain t where t: "start_time r = Some t" using assms(1) Cons by auto
  let ?w1 = "w\<lparr>files := (files w)(fn \<mapsto> [HeaderLine psv_columns, DataLine (psv_row r)])\<rparr>"
  have step: "record_runtime r fn w = (Inr (), ?w1)"
    using record_runtime_new[OF t assms(3)] .
  have rest: "record_all rs' fn ?w1 =
      (Inr (), ?w1\<lparr>files := (files ?w1)(fn \<mapsto>
         [HeaderLine psv_columns, DataLine (psv_row r)] @ map (\<lambda>r. DataLine (psv_row r)) rs')\<rparr>)"
    using assms(1) Cons by (intro record_all_old) simp_all
  have eq: "?w1\<lparr>files := (files ?w1)(fn \<mapsto>
         [HeaderLine psv_columns, DataLine (psv_row r)] @ map (\<lambda>r. DataLine (psv_row r)) rs')\<rparr>
     = w\<lparr>files := (files w)(fn \<mapsto>
         HeaderLine psv_columns # map (\<lambda>r. DataLine (psv_row r)) (r # rs'))\<rparr>"
    by (cases w) simp
  have "record_all (r # rs') fn w = record_all rs' fn ?w1" by (simp add: step)
  then show ?thesis unfolding rest eq Cons .
qed

text \<open>
  Claim C6. Calling \<open>start_benchmark\<close> while an operation is running changes neither the
  recorder nor the world (no error, the label and start instant stay). From an idle
  recorder, begin, begin, end appends exactly one data row to the recorder's log, with the
  first begin's operation name and start instant, and touches no other file.
\<close>

theorem start_benchmark_reentrant_noop:
  "(benchmark_running p \<longrightarrow> start_benchmark name p w = (p, w)) \<and>
   (\<not> benchmark_running p \<longrightarrow>
      (case start_benchmark n1 p w of (p1, w1) \<Rightarrow>
         case start_benchmark n2 p1 w1 of (p2, w2) \<Rightarrow>
           case end_benchmark p2 w2 of (r, p3, w3) \<Rightarrow>
             (p2, w2) = (p1, w1) \<and>
             operation_name (results p1) = Some n1 \<and>
             start_time (results p1) = Some (clock w (reads w)) \<and>
             r = Inr () \<and>
             data_lines (log_of w3 (benchmark_label p)) =
               data_lines (log_of w (benchmark_label p)) @
                 [[DateTime (clock w (reads w)), Number (run_number (results p)),
                   Text (Some n1),
                   Seconds (Some (clock w (Suc (reads w)) - clock w (reads w)))]] \<and>
             (\<forall>path. path \<noteq> psv_name (benchmark_label p) \<longrightarrow>
                files w3 path = files w path)))"
  by (simp add: start_benchmark_def end_benchmark_def time_time_def record_runtime_def
      to_pandas_def to_dict_def to_csv_def isfile_def log_of_def data_lines_append Let_def
      split: option.splits)

theorem start_benchmark_reentrant_noop_witness:
  "benchmark_running (fst (start_benchmark ''load'' (BenchmarkProfiler_init ''bench'') empty_world)) \<and>
   start_benchmark ''count'' (fst (start_benchmark ''load'' (BenchmarkProfiler_init ''bench'') empty_world))
     (snd (start_benchmark ''load'' (BenchmarkProfiler_init ''bench'') empty_world)) =
     start_benchmark ''load'' (BenchmarkProfiler_init ''bench'') empty_world \<and>
   \<not> benchmark_running (BenchmarkProfiler_init ''bench'') \<and>
   (case start_benchmark ''load'' (BenchmarkProfiler_init ''bench'') empty_world of (p1, w1) \<Rightarrow>
      case start_benchmark ''count'' p1 w1 of (p2, w2) \<Rightarrow>
        case end_benchmark p2 w2 of (r, p3, w3) \<Rightarrow>
          r = Inr () \<and>
          data_lines (log_of w3 ''bench'') =
            [[DateTime 0, Number None, Text (Some ''load''), Seconds (Some 1)]])"
proof -
  let ?p = "BenchmarkProfiler_init ''bench''"
  let ?s = "start_benchmark ''load'' ?p empty_world"
  have idle: "\<not> benchmark_running ?p" by (simp add: BenchmarkProfiler_init_def)
  have running: "benchmark_running (fst ?s)"
    by (simp add: start_benchmark_def BenchmarkProfiler_init_def time_time_def Let_def)
  have a: "start_benchmark ''count'' (fst ?s) (snd ?s) = ?s"
    using start_benchmark_reentrant_noop[of "fst ?s" "''count''" "snd ?s"] running by simp
  have b: "case ?s of (p1, w1) \<Rightarrow>
      case start_benchmark ''count'' p1 w1 of (p2, w2) \<Rightarrow>
        case end_benchmark p2 w2 of (r, p3, w3) \<Rightarrow>
          r = Inr () \<and>
          data_lines (log_of w3 ''bench'') =
            [[DateTime 0, Number None, Text (Some ''load''), Seconds (Some 1)]]"
    using start_benchmark_reentrant_noop[of ?p "''x''" empty_world "''load''" "''count''"] idle
    by (simp add: BenchmarkProfiler_init_def BenchmarkResultsData_init_def empty_world_def
        log_of_def psv_name_def split: prod.splits)
  show ?thesis using idle running a b by simp
qed

text \<open>
  Claim C8. When a record is emitted, the header line is written exactly when the log
  file did not exist before; an emission to an existing file appends one data line and no
  header. Hence a file that the recorder creates and then only appends to holds one header,
  its first line, followed by one data line per emission.
\<close>

theorem record_runtime_header_once:
  "(start_time r = Some t \<and> files w fn = None \<longrightarrow>
      record_runtime r fn w =
        (Inr (), w\<lparr>files := (files w)(fn \<mapsto>
           [HeaderLine [''Log Timestamp'', ''Run Number'', ''Operation'', ''Execution Time''],
            DataLine [DateTime t, Number (run_number r), Text (operation_name r),
                      Seconds (exec_time r)]])\<rparr>)) \<and>
   (start_time r = Some t \<and> files w fn = Some old \<longrightarrow>
      record_runtime r fn w =
        (Inr (), w\<lparr>files := (files w)(fn \<mapsto>
           old @ [DataLine [DateTime t, Number (run_number r), Text (operation_name r),
                            Seconds (exec_time r)]])\<rparr>)) \<and>
   ((\<forall>r\<in>set rs. start_time r \<noteq> None) \<and> rs \<noteq> [] \<and> files w fn = None \<longrightarrow>
      record_all rs fn w =
        (Inr (), w\<lparr>files := (files w)(fn \<mapsto>
           HeaderLine psv_columns # map (\<lambda>r. DataLine (psv_row r)) rs)\<rparr>))"
proof (intro conjI impI)
  assume "start_time r = Some t \<and> files w fn = None"
  then show "record_runtime r fn w =
        (Inr (), w\<lparr>files := (files w)(fn \<mapsto>
           [HeaderLine [''Log Timestamp'', ''Run Number'', ''Operation'', ''Execution Time''],
            DataLine [DateTime t, Number (run_number r), Text (operation_name r),
                      Seconds (exec_time r)]])\<rparr>)"
    by (simp add: record_runtime_def to_pandas_def to_dict_def to_csv_def isfile_def)
next
  assume "start_time r = Some t \<and> files w fn = Some old"
  then show "record_runtime r fn w =
        (Inr (), w\<lparr>files := (files w)(fn \<mapsto>
           old @ [DataLine [DateTime t, Number (run_number r), Text (operation_name r),
                            Seconds (exec_time r)]])\<rparr>)"
    by (simp add: record_runtime_def to_pandas_def to_dict_def to_csv_def isfile_def)
next
  assume "(\<forall>r\<in>set rs. start_time r \<noteq> None) \<and> rs \<noteq> [] \<and> files w fn = None"
  then show "record_all rs fn w =
        (Inr (), w\<lparr>files := (files w)(fn \<mapsto>
           HeaderLine psv_columns # map (\<lambda>r. DataLine (psv_row r)) rs)\<rparr>)"
    by (intro record_all_new) simp_all
qed

theorem record_runtime_header_once_witness:
  "record_runtime \<lparr>run_number = Some 1, operation_name = Some ''load'', start_time = Some 5,
       exec_time = Some 2\<rparr> ''bench.psv'' empty_world =
     (Inr (), empty_world\<lparr>files := [''bench.psv'' \<mapsto>
        [HeaderLine [''Log Timestamp'', ''Run Number'', ''Operation'', ''Execution Time''],
         DataLine [DateTime 5, Number (Some 1), Text (Some ''load''), Seconds (Some 2)]]]\<rparr>) \<and>
   record_runtime \<lparr>run_number = Some 1, operation_name = Some ''count'', start_time = Some 8,
       exec_time = Some 3\<rparr> ''bench.psv''
       (empty_world\<lparr>files := [''bench.psv'' \<mapsto> [HeaderLine psv_columns]]\<rparr>) =
     (Inr (), empty_world\<lparr>files := [''bench.psv'' \<mapsto>
        [HeaderLine psv_columns,
         DataLine [DateTime 8, Number (Some 1), Text (Some ''count''), Seconds (Some 3)]]]\<rparr>) \<and>
   record_all
     [\<lparr>run_number = Some 1, operation_name = Some ''load'', start_time = Some 5,
        exec_time = Some 2\<rparr>,
      \<lparr>run_number = Some 1, operation_name = Some ''count'', start_time = Some 8,
        exec_time = Some 3\<rparr>] ''bench.psv'' empty_world =
     (Inr (), empty_world\<lparr>files := [''bench.psv'' \<mapsto>
        [HeaderLine psv_columns,
         DataLine [DateTime 5, Number (Some 1), Text (Some ''load''), Seconds (Some 2)],
         DataLine [DateTime 8, Number (Some 1), Text (Some ''count''), Seconds (Some 3)]]]\<rparr>)"
proof -
  let ?r1 = "\<lparr>run_number = Some 1, operation_name = Some ''load'', start_time = Some 5,
       exec_time = Some 2\<rparr>"
  let ?r2 = "\<lparr>run_number = Some 1, operation_name = Some ''count'', start_time = Some 8,
       exec_time = Some 3\<rparr>"
  let ?w1 = "empty_world\<lparr>files := [''bench.psv'' \<mapsto> [HeaderLine psv_columns]]\<rparr>"
  have none: "files empty_world ''bench.psv'' = None" by (simp add: empty_world_def)
  have some: "files ?w1 ''bench.psv'' = Some [HeaderLine psv_columns]" by simp
  have a: "record_runtime ?r1 ''bench.psv'' empty_world =
     (Inr (), empty_world\<lparr>files := [''bench.psv'' \<mapsto>
        [HeaderLine [''Log Timestamp'', ''Run Number'', ''Operation'', ''Execution Time''],
         DataLine [DateTime 5, Number (Some 1), Text (Some ''load''), Seconds (Some 2)]]]\<rparr>)"
    using record_runtime_header_once[of ?r1 5 empty_world "''bench.psv''" "[]" "[]"] none
    by (simp add: empty_world_def)
  have b: "record_runtime ?r2 ''bench.psv'' ?w1 =
     (Inr (), empty_world\<lparr>files := [''bench.psv'' \<mapsto>
        [HeaderLine psv_columns,
         DataLine [DateTime 8, Number (Some 1), Text (Some ''count''), Seconds (Some 3)]]]\<rparr>)"
    using record_runtime_header_once[of ?r2 8 ?w1 "''bench.psv''" "[HeaderLine psv_columns]" "[]"] some
    by (simp add: empty_world_def)
  have h: "(\<forall>r\<in>set [?r1, ?r2]. start_time r \<noteq> None) \<and> [?r1, ?r2] \<noteq> [] \<and>
      files empty_world ''bench.psv'' = None"
    using none by simp
  have step: "record_all [?r1, ?r2] ''bench.psv'' empty_world =
      (Inr (), empty_world\<lparr>files := (files empty_world)(''bench.psv'' \<mapsto>
         HeaderLine psv_columns # map (\<lambda>r. DataLine (psv_row r)) [?r1, ?r2])\<rparr>)"
    using record_runtime_header_once[of ?r1 5 empty_world "''bench.psv''" "[]" "[?r1, ?r2]"] h
    by blast
  have eq: "empty_world\<lparr>files := (files empty_world)(''bench.psv'' \<mapsto>
         HeaderLine psv_columns # map (\<lambda>r. DataLine (psv_row r)) [?r1, ?r2])\<rparr> =
      empty_world\<lparr>files := [''bench.psv'' \<mapsto>
        [HeaderLine psv_columns,
         DataLine [DateTime 5, Number (Some 1), Text (Some ''load''), Seconds (Some 2)],
         DataLine [DateTime 8, Number (Some 1), Text (Some ''count''), Seconds (Some 3)]]]\<rparr>"
    by (simp add: empty_world_def psv_row_def to_dict_def)
  have c: "record_all [?r1, ?r2] ''bench.psv'' empty_world =
     (Inr (), empty_world\<lparr>files := [''bench.psv'' \<mapsto>
        [HeaderLine psv_columns,
         DataLine [DateTime 5, Number (Some 1), Text (Some ''load''), Seconds (Some 2)],
         DataLine [DateTime 8, Number (Some 1), Text (Some ''count''), Seconds (Some 3)]]]\<rparr>)"
    using step unfolding eq .
  show ?thesis using a b c by blast
qed

text \<open>
  Claim C10. Calling \<open>end_benchmark\<close> while no operation is running returns normally and
  changes neither the recorder (results, running flag) nor the world: no clock reading, no
  line appended. In particular a new recorder's first \<open>end_benchmark\<close> emits nothing.
\<close>

theorem end_benchmark_idle_noop:
  "(\<not> benchmark_running p \<longrightarrow> end_benchmark p w = (Inr (), p, w)) \<and>
   end_benchmark (BenchmarkProfiler_init label) w = (Inr (), BenchmarkProfiler_init label, w)"
  by (simp add: end_benchmark_def BenchmarkProfiler_init_def)

theorem end_benchmark_idle_noop_witness:
  "\<not> benchmark_running (set_run_number 2 (BenchmarkProfiler_init ''bench'')) \<and>
   end_benchmark (set_run_number 2 (BenchmarkProfiler_init ''bench'')) empty_world =
     (Inr (), set_run_number 2 (BenchmarkProfiler_init ''bench''), empty_world)"
proof -
  have idle: "\<not> benchmark_running (set_run_number 2 (BenchmarkProfiler_init ''bench''))"
    by (simp add: set_run_number_def BenchmarkProfiler_init_def)
  show ?thesis
    using end_benchmark_idle_noop[of "set_run_number 2 (BenchmarkProfiler_init ''bench'')"
        empty_world] idle
    by simp
qed

section \<open>Properties of the genotype-array factory\<close>

text \<open>
  Claim C9, as stated, fails: with exactly one call set and an unrecognised kind,
  \<open>get_genotype_array_concat\<close> hands over to \<open>get_genotype_array\<close> and returns \<open>None\<close>;
  it raises nothing.
\<close>

theorem get_genotype_array_concat_single_counterexample:
  "get_genotype_array_concat kinds [[(''calldata'', [(''GT'', [[[0, 1]]])])]] 7 = Inr None"
  by (simp add: get_genotype_array_concat_def get_genotype_array_def kinds_def)

text \<open>
  Claim C9, amended. For a kind that is none of the three known ones,
  \<open>get_genotype_array\<close> returns \<open>None\<close>; \<open>get_genotype_array_concat\<close> raises ValueError
  when it is given no call set or more than one, and returns \<open>None\<close> when it is given
  exactly one. No call produces a handle.
\<close>

theorem unrecognized_kind_no_handle:
  "kind \<noteq> GENOTYPE_ARRAY_NORMAL config \<and>
   kind \<noteq> GENOTYPE_ARRAY_DASK config \<and>
   kind \<noteq> GENOTYPE_ARRAY_CHUNKED config \<longrightarrow>
     get_genotype_array config callset kind = Inr None \<and>
     (length callsets \<noteq> 1 \<longrightarrow>
        get_genotype_array_concat config callsets kind =
          Inl (ValueError ''Error: Invalid option specified for genotype_array_type.'')) \<and>
     (length callsets = 1 \<longrightarrow>
        get_genotype_array_concat config callsets kind = Inr None)"
  by (cases callsets) (auto simp: get_genotype_array_def get_genotype_array_concat_def)

theorem unrecognized_kind_no_handle_witness:
  "(7::int) \<noteq> GENOTYPE_ARRAY_NORMAL kinds \<and> 7 \<noteq> GENOTYPE_ARRAY_DASK kinds \<and>
   7 \<noteq> GENOTYPE_ARRAY_CHUNKED kinds \<and>
   get_genotype_array kinds [(''calldata'', [(''GT'', [[[0, 1]]])])] 7 = Inr None \<and>
   length [[(''calldata'', [(''GT'', [[[0, 1]]])])], []] \<noteq> 1 \<and>
   get_genotype_array_concat kinds [[(''calldata'', [(''GT'', [[[0, 1]]])])], []] 7 =
     Inl (ValueError ''Error: Invalid option specified for genotype_array_type.'') \<and>
   length [[(''calldata'', [(''GT'', [[[0::int, 1]]])])]] = 1 \<and>
   get_genotype_array_concat kinds [[(''calldata'', [(''GT'', [[[0, 1]]])])]] 7 = Inr None"
proof -
  have k: "(7::int) \<noteq> GENOTYPE_ARRAY_NORMAL kinds \<and> 7 \<noteq> GENOTYPE_ARRAY_DASK kinds \<and>
      7 \<noteq> GENOTYPE_ARRAY_CHUNKED kinds"
    by (simp add: kinds_def)
  show ?thesis
    using k
      unrecognized_kind_no_handle[of 7 kinds "[(''calldata'', [(''GT'', [[[0, 1]]])])]"
        "[[(''calldata'', [(''GT'', [[[0, 1]]])])], []]"]
      unrecognized_kind_no_handle[of 7 kinds "[(''calldata'', [(''GT'', [[[0, 1]]])])]"
        "[[(''calldata'', [(''GT'', [[[0, 1]]])])]]"]
    by simp
qed

section \<open>Properties of the array operations\<close>

lemma nonzero_bound: "i \<in> set (nonzero flags) \<Longrightarrow> i < length flags"
  by (simp add: nonzero_def)

lemma nonzero_strict: "sorted_wrt (<) (nonzero flags)"
  by (simp add: nonzero_def sorted_wrt_filter)

lemma length_nonzero: "length (nonzero flags) = count_nonzero flags"
proof -
  have "map (\<lambda>i. flags ! i) (filter (\<lambda>i. flags ! i) [0..<length flags]) =
        filter (\<lambda>b. b) (map (\<lambda>i. flags ! i) [0..<length flags])"
    by (simp add: filter_map comp_def)
  then have "length (filter (\<lambda>i. flags ! i) [0..<length flags]) =
      length (filter (\<lambda>b. b) (map (\<lambda>i. flags ! i) [0..<length flags]))"
    by (metis length_map)
  then show ?thesis by (simp add: nonzero_def count_nonzero_def map_nth)
qed

lemma strict_sorted_bounded_length:
  "sorted_wrt (<) (xs :: nat list) \<Longrightarrow> \<forall>i\<in>set xs. i < n \<Longrightarrow> length xs \<le> n"
proof -
  assume s: "sorted_wrt (<) xs" and b: "\<forall>i\<in>set xs. i < n"
  have "distinct xs" using s by (simp add: strict_sorted_iff)
  then have "length xs = card (set xs)" by (simp add: distinct_card)
  also have "\<dots> \<le> card {..<n}" using b by (intro card_mono) auto
  finally show ?thesis by simp
qed

lemma np_take_length: "np_take indices a = Inr b \<Longrightarrow> length b = length indices"
  by (auto simp: np_take_def split: if_splits)

lemma np_compress_length_le:
  assumes "np_compress condition a = Inr b"
  shows "length b \<le> length a"
proof -
  have ok: "list_all (\<lambda>i. i < length a) (nonzero condition)"
    using assms by (auto simp: np_compress_def np_take_def split: if_splits)
  have "length b = length (nonzero condition)"
    using assms by (simp add: np_compress_def np_take_length)
  also have "\<dots> \<le> length a"
    using ok nonzero_strict[of condition]
    by (intro strict_sorted_bounded_length) (auto simp: list_all_iff)
  finally show ?thesis .
qed

lemma np_compress_same_length:
  assumes "length condition = length a"
  shows "np_compress condition a = Inr (map snd (filter fst (zip condition a)))"
proof -
  have ok: "list_all (\<lambda>i. i < length a) (nonzero condition)"
    using assms nonzero_bound[of _ condition] by (auto simp: list_all_iff)
  let ?n = "length a"
  have "zip condition a = zip (map (\<lambda>i. condition ! i) [0..<?n]) (map (\<lambda>i. a ! i) [0..<?n])"
    using assms by (metis map_nth)
  also have "\<dots> = map (\<lambda>i. (condition ! i, a ! i)) [0..<?n]"
    by (simp add: zip_map_map zip_same_conv_map)
  finally have z: "zip condition a = map (\<lambda>i. (condition ! i, a ! i)) [0..<?n]" .
  have "map (\<lambda>i. a ! i) (filter (\<lambda>i. condition ! i) [0..<length a]) =
        map snd (filter fst (zip condition a))"
    unfolding z by (simp add: filter_map comp_def)
  then show ?thesis using ok assms by (simp add: np_compress_def np_take_def nonzero_def)
qed

lemma map_nth_eq_nths:
  assumes "sorted (vidx :: nat list)" and "distinct vidx" and "\<forall>i\<in>set vidx. i < length a"
  shows "map (\<lambda>i. a ! i) vidx = nths a (set vidx)"
proof -
  let ?n = "length a"
  have "zip a [0..<?n] = zip (map (\<lambda>i. a ! i) [0..<?n]) (map (\<lambda>i. i) [0..<?n])"
    by (simp add: map_nth)
  also have "\<dots> = map (\<lambda>i. (a ! i, i)) [0..<?n]"
    by (simp only: zip_map_map zip_same_conv_map) (simp add: comp_def)
  finally have z: "zip a [0..<?n] = map (\<lambda>i. (a ! i, i)) [0..<?n]" .
  have n: "nths a (set vidx) = map (\<lambda>i. a ! i) (filter (\<lambda>i. i \<in> set vidx) [0..<?n])"
    unfolding nths_def z by (simp add: filter_map comp_def)
  have "filter (\<lambda>i. i \<in> set vidx) [0..<?n] = vidx"
  proof (rule sorted_distinct_set_unique)
    show "sorted (filter (\<lambda>i. i \<in> set vidx) [0..<?n])" by (simp add: sorted_wrt_filter)
    show "distinct (filter (\<lambda>i. i \<in> set vidx) [0..<?n])" by simp
    show "sorted vidx" by (rule assms(1))
    show "distinct vidx" by (rule assms(2))
    show "set (filter (\<lambda>i. i \<in> set vidx) [0..<?n]) = set vidx" using assms(3) by auto
  qed
  then show ?thesis using n by simp
qed

lemma permutation_facts:
  assumes "sort permutation = [0..<n]"
  shows "distinct permutation" and "set permutation = {0..<n}" and "length permutation = n"
proof -
  have "distinct (sort permutation)" using assms by simp
  then show "distinct permutation" by simp
  have "set (sort permutation) = {0..<n}" using assms by simp
  then show "set permutation = {0..<n}" by simp
  have "length (sort permutation) = n" using assms by simp
  then show "length permutation = n" by simp
qed

text \<open>
  The subsampling on the backends whose dosage array has a \<open>take\<close> method. With a random
  permutation of the variant indices and a non-negative subset size, the step chooses
  min(variant count, subset size) indices, without duplicates, sorted ascending and in
  range, and slices the dosage matrix by them, so the reduced matrix is the sub-list of
  the original at those positions, in the original order. When the subset size is at
  least the variant count, every variant is chosen and the matrix is returned whole.
\<close>

lemma pca_subsample_indices_sorted_distinct:
  assumes "sort permutation = [0..<length gn]" and "0 \<le> subset_size"
  shows "pca_subsample_indices permutation gn subset_size =
           Inr (sort (take (nat (min (int (length gn)) subset_size)) permutation))"
    and "length (sort (take (nat (min (int (length gn)) subset_size)) permutation)) =
           min (length gn) (nat subset_size)"
    and "distinct (sort (take (nat (min (int (length gn)) subset_size)) permutation))"
    and "\<forall>i\<in>set (sort (take (nat (min (int (length gn)) subset_size)) permutation)).
           i < length gn"
    and "int (length gn) \<le> subset_size \<Longrightarrow>
           sort (take (nat (min (int (length gn)) subset_size)) permutation) = [0..<length gn]"
proof -
  let ?n = "min (int (length gn)) subset_size"
  let ?vidx = "sort (take (nat ?n) permutation)"
  note pf = permutation_facts[OF assms(1)]
  have n0: "0 \<le> ?n" "?n \<le> int (length gn)" using assms(2) by simp_all
  show "pca_subsample_indices permutation gn subset_size = Inr ?vidx"
    using n0 by (simp add: pca_subsample_indices_def random_choice_def Let_def)
  show "length ?vidx = min (length gn) (nat subset_size)"
    using pf(3) assms(2) by (simp add: min_def) linarith
  show "distinct ?vidx" using pf(1) by simp
  show "\<forall>i\<in>set ?vidx. i < length gn"
    using pf(2) by (auto dest: in_set_takeD)
  show "?vidx = [0..<length gn]" if "int (length gn) \<le> subset_size"
  proof -
    have "nat ?n = length permutation" using that pf(3) by simp
    then show ?thesis using assms(1) by simp
  qed
qed

lemma pca_subsample_with_take:
  assumes "sort permutation = [0..<length gn]" and "0 \<le> subset_size" and "kind \<noteq> Dask"
  shows "\<exists>vidx. pca_subsample_indices permutation gn subset_size = Inr vidx \<and>
           length vidx = min (length gn) (nat subset_size) \<and>
           distinct vidx \<and> sorted vidx \<and> (\<forall>i\<in>set vidx. i < length gn) \<and>
           pca_subsample kind permutation gn subset_size = Inr (map (\<lambda>i. gn ! i) vidx) \<and>
           map (\<lambda>i. gn ! i) vidx = nths gn (set vidx) \<and>
           (int (length gn) \<le> subset_size \<longrightarrow>
              vidx = [0..<length gn] \<and> pca_subsample kind permutation gn subset_size = Inr gn)"
proof -
  let ?vidx = "sort (take (nat (min (int (length gn)) subset_size)) permutation)"
  note f = pca_subsample_indices_sorted_distinct[OF assms(1,2)]
  have srt: "sorted ?vidx" by simp
  have tk: "array_take kind ?vidx gn = np_take ?vidx gn"
    using assms(3) by (cases kind) (simp_all add: array_take_def)
  have sub: "pca_subsample kind permutation gn subset_size = Inr (map (\<lambda>i. gn ! i) ?vidx)"
    using f(4) by (simp add: pca_subsample_def f(1) tk np_take_def list_all_iff)
  have nt: "map (\<lambda>i. gn ! i) ?vidx = nths gn (set ?vidx)"
    using srt f(3) f(4) by (rule map_nth_eq_nths)
  have full: "?vidx = [0..<length gn] \<and> pca_subsample kind permutation gn subset_size = Inr gn"
    if "int (length gn) \<le> subset_size"
    unfolding sub f(5)[OF that] by (simp add: map_nth)
  show ?thesis
    using f(1) f(2) f(3) srt f(4) sub nt full by blast
qed

text \<open>
  On the Dask backend the indices are chosen in the same way, and then the slice fails:
  for every non-negative subset size the step ends in AttributeError.
\<close>

lemma pca_subsample_dask:
  assumes "0 \<le> subset_size"
  shows "pca_subsample Dask permutation gn subset_size =
           Inl (AttributeError ''Array object has no attribute take'')"
  using assms
  by (simp add: pca_subsample_def pca_subsample_indices_def random_choice_def Let_def
      array_take_def)

text \<open>
  Claim C4. The claim's scenario, 30 variants and a subset size of 50, on each backend.
  The index selection is what the claim says: all 30 indices, ascending. On a numpy or a
  chunked genotype array the dosage matrix comes back whole. On a Dask genotype array,
  which \<open>_benchmark_pca\<close> means to serve (line 291 tests for it, after the slice), the
  slice of line 288 raises AttributeError, so the step does not end without error.
\<close>

theorem pca_subsample_dask_attribute_error:
  "pca_subsample_indices (rev [0..<30]) (map (\<lambda>i. [int i]) [0..<30]) 50 = Inr [0..<30] \<and>
   pca_subsample Numpy (rev [0..<30]) (map (\<lambda>i. [int i]) [0..<30]) 50 =
     Inr (map (\<lambda>i. [int i]) [0..<30]) \<and>
   pca_subsample Chunked (rev [0..<30]) (map (\<lambda>i. [int i]) [0..<30]) 50 =
     Inr (map (\<lambda>i. [int i]) [0..<30]) \<and>
   pca_subsample Dask (rev [0..<30]) (map (\<lambda>i. [int i]) [0..<30]) 50 =
     Inl (AttributeError ''Array object has no attribute take'')"
proof -
  let ?gn = "map (\<lambda>i. [int i]) [0..<30]"
  have "sort (rev [0..<30::nat]) = [0..<30]"
    by (rule sorted_distinct_set_unique) simp_all
  then have h1: "sort (rev [0..<30]) = [0..<length ?gn]" by simp
  have h2: "(0::int) \<le> 50" by simp
  have h3: "int (length ?gn) \<le> 50" by simp
  have whole: "pca_subsample_indices (rev [0..<30]) ?gn 50 = Inr [0..<30] \<and>
      pca_subsample kind (rev [0..<30]) ?gn 50 = Inr ?gn" if "kind \<noteq> Dask" for kind
  proof -
    from pca_subsample_with_take[OF h1 h2 that] h3
    obtain vidx where "pca_subsample_indices (rev [0..<30]) ?gn 50 = Inr vidx"
      and "vidx = [0..<length ?gn]"
      and "pca_subsample kind (rev [0..<30]) ?gn 50 = Inr ?gn"
      by blast
    then show ?thesis by simp
  qed
  have n: "Numpy \<noteq> Dask" and c: "Chunked \<noteq> Dask" by simp_all
  show ?thesis
    using whole[OF n] whole[OF c] pca_subsample_dask[OF h2, of "rev [0..<30]" ?gn]
    by simp
qed

lemma ld_prune_loop_fst_indep:
  "fst (ld_prune_loop A wsize wstep threshold blen n_iter rounds gn w) =
   fst (ld_prune_loop A wsize wstep threshold blen n_iter' rounds' gn w')"
  if "length rounds = length rounds'"
  using that
proof (induction rounds arbitrary: rounds' gn w w')
  case Nil
  then show ?case by simp
next
  case (Cons i rounds)
  then obtain j rest where r: "rounds' = j # rest" "length rounds = length rest"
    by (cases rounds') auto
  show ?case
    using Cons.IH[OF r(2)] by (simp add: r(1) Let_def split: sum.splits)
qed

lemma ld_prune_loop_append:
  "fst (ld_prune_loop A wsize wstep threshold blen n_iter (rounds @ later) gn w) =
   (case fst (ld_prune_loop A wsize wstep threshold blen n_iter rounds gn w) of
      Inl e \<Rightarrow> Inl e
    | Inr g \<Rightarrow> fst (ld_prune_loop A wsize wstep threshold blen n_iter' later g w'))"
proof (induction rounds arbitrary: gn w)
  case Nil
  have "fst (ld_prune_loop A wsize wstep threshold blen n_iter later gn w) =
        fst (ld_prune_loop A wsize wstep threshold blen n_iter' later gn w')"
    by (rule ld_prune_loop_fst_indep) simp
  then show ?case by simp
next
  case (Cons i rounds)
  show ?case
  proof (cases "np_compress (locate_unlinked A gn wsize wstep threshold blen) gn")
    case (Inl e)
    then show ?thesis by (simp add: Let_def)
  next
    case (Inr g1)
    then show ?thesis using Cons.IH[of g1] by (simp add: Let_def)
  qed
qed

lemma ld_prune_loop_length_le:
  "ld_prune_loop A wsize wstep threshold blen n_iter rounds gn w = (Inr g, w') \<Longrightarrow>
   length g \<le> length gn"
proof (induction rounds arbitrary: gn w)
  case Nil
  then show ?case by simp
next
  case (Cons i rounds)
  then obtain g1 where g1: "np_compress (locate_unlinked A gn wsize wstep threshold blen) gn = Inr g1"
    by (cases "np_compress (locate_unlinked A gn wsize wstep threshold blen) gn")
       (auto simp: Let_def)
  have "length g \<le> length g1"
    using Cons.prems g1 by (intro Cons.IH[of g1]) (simp add: Let_def)
  moreover have "length g1 \<le> length gn" using g1 by (rule np_compress_length_le)
  ultimately show ?case by simp
qed

lemma ld_prune_loop_total:
  assumes "\<And>g. length (locate_unlinked A g wsize wstep threshold blen) = length g"
  shows "\<exists>g. fst (ld_prune_loop A wsize wstep threshold blen n_iter rounds gn w) = Inr g"
proof (induction rounds arbitrary: gn w)
  case Nil
  then show ?case by simp
next
  case (Cons i rounds)
  show ?case
    using Cons.IH by (simp add: Let_def np_compress_same_length[OF assms])
qed

section \<open>Properties of the PCA pipeline\<close>

text \<open>
  Claim C3. Given the filter mask computed from the allele counts, with the recorder idle:
  if the mask has no true entry, the filter step returns the unfiltered genotype data,
  prints the warning and raises nothing; if it has a true entry, the step returns the
  genotype data compressed by the mask along the variant axis and prints nothing. For a
  mask as long as the variant axis the compression keeps exactly the variants whose
  entry is true.
\<close>

theorem pca_filter_skipped_when_empty:
  assumes "\<not> benchmark_running p" and "pca_filter_mask A ac = Inr flt"
  shows "(count_nonzero flt = 0 \<longrightarrow>
            (\<exists>p' w'. pca_remove_singletons A ac gt p w = (Inr gt, p', w') \<and>
                     stdout w' = stdout w @ [filter_warning])) \<and>
         (0 < count_nonzero flt \<longrightarrow>
            (\<exists>p' w'. pca_remove_singletons A ac gt p w =
                       (case np_compress flt gt of Inl e \<Rightarrow> Inl e | Inr gf \<Rightarrow> Inr gf, p', w') \<and>
                     stdout w' = stdout w)) \<and>
         (length flt = length gt \<longrightarrow>
            np_compress flt gt = Inr (map snd (filter fst (zip flt gt))))"
proof (intro conjI impI)
  assume "count_nonzero flt = 0"
  then show "\<exists>p' w'. pca_remove_singletons A ac gt p w = (Inr gt, p', w') \<and>
                     stdout w' = stdout w @ [filter_warning]"
    using assms
    by (simp add: pca_remove_singletons_def start_benchmark_def end_benchmark_def
        time_time_def record_runtime_def to_pandas_def to_dict_def print_def Let_def)
next
  assume "0 < count_nonzero flt"
  then show "\<exists>p' w'. pca_remove_singletons A ac gt p w =
                       (case np_compress flt gt of Inl e \<Rightarrow> Inl e | Inr gf \<Rightarrow> Inr gf, p', w') \<and>
                     stdout w' = stdout w"
    using assms
    by (cases "np_compress flt gt")
       (simp_all add: pca_remove_singletons_def start_benchmark_def end_benchmark_def
        time_time_def record_runtime_def to_pandas_def to_dict_def Let_def)
next
  assume "length flt = length gt"
  then show "np_compress flt gt = Inr (map snd (filter fst (zip flt gt)))"
    by (rule np_compress_same_length)
qed

theorem pca_filter_skipped_when_empty_witness:
  "\<not> benchmark_running (BenchmarkProfiler_init ''bench'') \<and>
   pca_filter_mask sample_allel [[3, 1], [4, 0]] = Inr [False, False] \<and>
   count_nonzero [False, False] = 0 \<and>
   fst (pca_remove_singletons sample_allel [[3, 1], [4, 0]] [[[0, 1]], [[0, 0]]]
          (BenchmarkProfiler_init ''bench'') empty_world) = Inr [[[0, 1]], [[0, 0]]] \<and>
   stdout (snd (snd (pca_remove_singletons sample_allel [[3, 1], [4, 0]] [[[0, 1]], [[0, 0]]]
          (BenchmarkProfiler_init ''bench'') empty_world))) = [filter_warning] \<and>
   pca_filter_mask sample_allel [[2, 2], [3, 1]] = Inr [True, False] \<and>
   0 < count_nonzero [True, False] \<and>
   fst (pca_remove_singletons sample_allel [[2, 2], [3, 1]] [[[0, 1]], [[0, 0]]]
          (BenchmarkProfiler_init ''bench'') empty_world) = Inr [[[0, 1]]] \<and>
   stdout (snd (snd (pca_remove_singletons sample_allel [[2, 2], [3, 1]] [[[0, 1]], [[0, 0]]]
          (BenchmarkProfiler_init ''bench'') empty_world))) = []"
proof -
  let ?p = "BenchmarkProfiler_init ''bench''"
  let ?gt = "[[[0, 1]], [[0, 0]]] :: genotypes"
  have idle: "\<not> benchmark_running ?p" by (simp add: BenchmarkProfiler_init_def)
  have m1: "pca_filter_mask sample_allel [[3, 1], [4, 0]] = Inr [False, False]"
    by (simp add: pca_filter_mask_def sample_allel_def min_axis1_def np_and_def)
  have m2: "pca_filter_mask sample_allel [[2, 2], [3, 1]] = Inr [True, False]"
    by (simp add: pca_filter_mask_def sample_allel_def min_axis1_def np_and_def)
  have c1: "count_nonzero [False, False] = 0" by (simp add: count_nonzero_def)
  have c2: "0 < count_nonzero [True, False]" by (simp add: count_nonzero_def)
  have z: "map snd (filter fst (zip [True, False] ?gt)) = [[[0, 1]]]" by simp
  have s0: "stdout empty_world = []" by (simp add: empty_world_def)
  from pca_filter_skipped_when_empty[OF idle m1, of ?gt empty_world] c1
  obtain p1 w1 where r1:
    "pca_remove_singletons sample_allel [[3, 1], [4, 0]] ?gt ?p empty_world = (Inr ?gt, p1, w1)"
    "stdout w1 = stdout empty_world @ [filter_warning]"
    by blast
  from pca_filter_skipped_when_empty[OF idle m2, of ?gt empty_world] c2
  obtain p2 w2 where r2:
    "pca_remove_singletons sample_allel [[2, 2], [3, 1]] ?gt ?p empty_world =
       (case np_compress [True, False] ?gt of Inl e \<Rightarrow> Inl e | Inr gf \<Rightarrow> Inr gf, p2, w2)"
    "stdout w2 = stdout empty_world"
    by blast
  have len: "length [True, False] = length ?gt" by simp
  from pca_filter_skipped_when_empty[OF idle m2, of ?gt empty_world] len
  have cmp: "np_compress [True, False] ?gt = Inr [[[0, 1]]]"
    unfolding z by blast
  show ?thesis
    using idle m1 m2 c1 c2 r1 r2 by (simp add: cmp s0)
qed

text \<open>
  Claim C5. In \<open>_pca_ld_prune\<close> the matrix after round k+1 has at most as many rows as
  the matrix after round k, which has at most as many as the input; the matrix after k
  rounds of a longer run is the result of running k rounds. When the linkage mask always
  has one entry per row, every run returns a matrix.
\<close>

theorem pca_ld_prune_monotone:
  "(\<forall>g'. fst (pca_ld_prune A gn wsize wstep threshold (int (Suc k)) w) = Inr g' \<longrightarrow>
      (\<exists>g. fst (pca_ld_prune A gn wsize wstep threshold (int k) w) = Inr g \<and>
           length g' \<le> length g \<and> length g \<le> length gn)) \<and>
   fst (pca_ld_prune A gn wsize wstep threshold (int (k + m)) w) =
     (case fst (pca_ld_prune A gn wsize wstep threshold (int k) w) of
        Inl e \<Rightarrow> Inl e
      | Inr g \<Rightarrow> fst (pca_ld_prune A g wsize wstep threshold (int m) w)) \<and>
   ((\<forall>g. length (locate_unlinked A g wsize wstep threshold (wsize * 10)) = length g) \<longrightarrow>
      (\<exists>g. fst (pca_ld_prune A gn wsize wstep threshold n_iter w) = Inr g))"
proof (intro conjI allI impI)
  fix g'
  assume a: "fst (pca_ld_prune A gn wsize wstep threshold (int (Suc k)) w) = Inr g'"
  let ?loop = "ld_prune_loop A wsize wstep threshold (wsize * 10)"
  have split: "fst (?loop (int (Suc k)) ([0..<k] @ [k]) gn w) =
      (case fst (?loop (int (Suc k)) [0..<k] gn w) of
         Inl e \<Rightarrow> Inl e
       | Inr g \<Rightarrow> fst (?loop (int (Suc k)) [k] g w))"
    by (rule ld_prune_loop_append)
  have same: "fst (?loop (int (Suc k)) [0..<k] gn w) = fst (?loop (int k) [0..<k] gn w)"
    by (rule ld_prune_loop_fst_indep) simp
  have n: "[0..<nat (int (Suc k))] = [0..<k] @ [k]" by (simp only: nat_int upt_Suc) simp
  from a have b: "fst (?loop (int (Suc k)) ([0..<k] @ [k]) gn w) = Inr g'"
    unfolding pca_ld_prune_def Let_def n .
  then obtain g where g: "fst (?loop (int k) [0..<k] gn w) = Inr g"
    and last: "fst (?loop (int (Suc k)) [k] g w) = Inr g'"
    unfolding split same by (cases "fst (?loop (int k) [0..<k] gn w)") auto
  have "length g' \<le> length g"
    using last ld_prune_loop_length_le[of A wsize wstep threshold "wsize * 10" "int (Suc k)" "[k]" g w g']
    by (metis prod.collapse)
  moreover have "length g \<le> length gn"
    using g ld_prune_loop_length_le[of A wsize wstep threshold "wsize * 10" "int k" "[0..<k]" gn w g]
    by (metis prod.collapse)
  ultimately show "\<exists>g. fst (pca_ld_prune A gn wsize wstep threshold (int k) w) = Inr g \<and>
           length g' \<le> length g \<and> length g \<le> length gn"
    using g by (simp add: pca_ld_prune_def)
next
  let ?loop = "ld_prune_loop A wsize wstep threshold (wsize * 10)"
  have u: "[0..<k + m] = [0..<k] @ [k..<k + m]"
    by (metis le_add1 upt_add_eq_append zero_le)
  have "fst (?loop (int (k + m)) ([0..<k] @ [k..<k + m]) gn w) =
      (case fst (?loop (int (k + m)) [0..<k] gn w) of
         Inl e \<Rightarrow> Inl e
       | Inr g \<Rightarrow> fst (?loop (int m) [k..<k + m] g w))"
    by (rule ld_prune_loop_append)
  moreover have "fst (?loop (int (k + m)) [0..<k] gn w) = fst (?loop (int k) [0..<k] gn w)"
    by (rule ld_prune_loop_fst_indep) simp
  moreover have "fst (?loop (int m) [k..<k + m] g w) = fst (?loop (int m) [0..<m] g w)" for g
    by (rule ld_prune_loop_fst_indep) simp
  ultimately show "fst (pca_ld_prune A gn wsize wstep threshold (int (k + m)) w) =
     (case fst (pca_ld_prune A gn wsize wstep threshold (int k) w) of
        Inl e \<Rightarrow> Inl e
      | Inr g \<Rightarrow> fst (pca_ld_prune A g wsize wstep threshold (int m) w))"
    by (simp add: pca_ld_prune_def u del: of_nat_add split: sum.splits)
next
  assume "\<forall>g. length (locate_unlinked A g wsize wstep threshold (wsize * 10)) = length g"
  then have "\<And>g. length (locate_unlinked A g wsize wstep threshold (wsize * 10)) = length g"
    by simp
  from ld_prune_loop_total[OF this]
  show "\<exists>g. fst (pca_ld_prune A gn wsize wstep threshold n_iter w) = Inr g"
    by (simp add: pca_ld_prune_def)
qed

theorem pca_ld_prune_monotone_witness:
  "fst (pca_ld_prune sample_allel [[0], [1], [2], [3]] 5 2 (1 / 10) 2 empty_world) = Inr [[0]] \<and>
   (\<exists>g. fst (pca_ld_prune sample_allel [[0], [1], [2], [3]] 5 2 (1 / 10) 1 empty_world) = Inr g \<and>
        length [[0::int]] \<le> length g \<and> length g \<le> 4) \<and>
   (\<exists>g. fst (pca_ld_prune sample_allel [[0], [1], [2], [3]] 5 2 (1 / 10) 3 empty_world) = Inr g)"
proof -
  let ?gn = "[[0], [1], [2], [3]] :: dosage"
  have e2: "fst (pca_ld_prune sample_allel ?gn 5 2 (1 / 10) (int (Suc 1)) empty_world) = Inr [[0]]"
    by (simp add: pca_ld_prune_def sample_allel_def np_compress_def np_take_def nonzero_def
        count_nonzero_def Let_def upt_conv_Cons)
  have l: "\<forall>g. length (locate_unlinked sample_allel g 5 2 (1 / 10) (5 * 10)) = length g"
    by (simp add: sample_allel_def)
  have i: "int (Suc 1) = 2" by simp
  from pca_ld_prune_monotone[of sample_allel ?gn 5 2 "1 / 10" 1 empty_world 0 3] e2 l
  have "(\<exists>g. fst (pca_ld_prune sample_allel ?gn 5 2 (1 / 10) (int 1) empty_world) = Inr g \<and>
        length [[0::int]] \<le> length g \<and> length g \<le> length ?gn) \<and>
     (\<exists>g. fst (pca_ld_prune sample_allel ?gn 5 2 (1 / 10) 3 empty_world) = Inr g)"
    by blast
  then show ?thesis using e2 unfolding i by (simp add: eval_nat_numeral)
qed

section \<open>Properties of the conversion to Zarr\<close>

lemma np_max_Max: "xs \<noteq> [] \<Longrightarrow> np_max xs = Inr (Max (set xs))"
proof (cases xs)
  case Nil
  assume "xs \<noteq> []"
  with Nil show ?thesis by simp
next
  case (Cons a list)
  then show ?thesis using Max.set_eq_fold[of a list] by (simp add: np_max_def)
qed


lemma bind_Inl: "m s = (Inl e, s1) \<Longrightarrow> bind m f s = (Inl e, s1)"
  by (simp add: bind_def)

lemma say_run: "say line (bp, w) = (Inr (), (bp, print line w))"
  by (simp add: say_def)

lemma profiler_start_None: "profiler_start name (None, w) = (Inr (), (None, w))"
  by (simp add: profiler_start_def)

lemma profiler_end_None: "profiler_end (None, w) = (Inr (), (None, w))"
  by (simp add: profiler_end_def)

lemma start_benchmark_idle:
  "\<not> benchmark_running p \<Longrightarrow>
   start_benchmark name p w =
     (p\<lparr>results := (results p)\<lparr>operation_name := Some name, start_time := Some (clock w (reads w))\<rparr>,
        benchmark_running := True\<rparr>,
      w\<lparr>reads := Suc (reads w)\<rparr>)"
  by (simp add: start_benchmark_def time_time_def Let_def)

lemma end_benchmark_running:
  "benchmark_running p \<Longrightarrow> start_time (results p) = Some st \<Longrightarrow>
   \<exists>p1 w1. end_benchmark p w = (Inr (), p1, w1) \<and> \<not> benchmark_running p1 \<and>
     calls w1 = calls w \<and> stdout w1 = stdout w \<and>
     benchmark_label p1 = benchmark_label p \<and>
     run_number (results p1) = run_number (results p)"
  by (simp add: end_benchmark_def time_time_def record_runtime_def to_pandas_def to_dict_def
      Let_def)


lemma determine_alt_number_run:
  assumes "idle bp"
  shows "\<exists>bp1 w1.
     determine_alt_number E path cfg (bp, w) =
       (case alt_number cfg of
          Some a \<Rightarrow> Inr a
        | None \<Rightarrow>
            (case read_vcf E (calls w) path [''numalt''] of
               Inl msg \<Rightarrow> Inl (ExternalError msg)
             | Inr None \<Rightarrow> Inl (TypeError ''NoneType object is not subscriptable'')
             | Inr (Some numalt) \<Rightarrow> np_max numalt),
        (bp1, w1)) \<and>
     calls w1 = calls w @ (if alt_number cfg = None then [ReadVcf path [''numalt'']] else []) \<and>
     (bp1 = None \<longleftrightarrow> bp = None) \<and>
     (case alt_number cfg of
        Some a \<Rightarrow> idle bp1
      | None \<Rightarrow>
          (case read_vcf E (calls w) path [''numalt''] of
             Inr (Some numalt) \<Rightarrow> numalt \<noteq> [] \<longrightarrow> idle bp1
           | _ \<Rightarrow> True))"
proof (cases bp)
  case None
  then show ?thesis
    by (auto simp: determine_alt_number_def bind_def say_def profiler_start_def
        profiler_end_def allel_read_vcf_def numalt_of_def ret_def raise_def lift_result_def
        idle_def print_def np_max_def
        split: option.splits sum.splits)
next
  case (Some p)
  then have i: "\<not> benchmark_running p" using assms by (simp add: idle_def)
  show ?thesis
    using i
    by (auto simp: Some determine_alt_number_def bind_def say_def profiler_start_def
        profiler_end_def allel_read_vcf_def numalt_of_def ret_def raise_def lift_result_def
        idle_def print_def np_max_def start_benchmark_def end_benchmark_def time_time_def
        record_runtime_def to_pandas_def to_dict_def Let_def
        split: option.splits sum.splits)
qed

lemma write_zarr_run:
  assumes "idle bp"
  shows "\<exists>bp2 w2.
     write_zarr E input target cfg alt (bp, w) =
       (if compressor cfg = ''Blosc''
        then (case vcf_to_zarr E (calls w) (requested E input target cfg alt) of
                Some msg \<Rightarrow> Inl (ExternalError msg)
              | None \<Rightarrow> Inr ())
        else Inl (ValueError ''Unexpected compressor type specified.''),
        (bp2, w2)) \<and>
     calls w2 = calls w @
       (if compressor cfg = ''Blosc'' then [VcfToZarr (requested E input target cfg alt)] else [])"
proof (cases bp)
  case None
  then show ?thesis
    by (auto simp: write_zarr_def make_compressor_def requested_def
        allel_vcf_to_zarr_def bind_def say_def profiler_start_def
        profiler_end_def ret_def raise_def print_def
        split: option.splits)
next
  case (Some p)
  then have i: "\<not> benchmark_running p" using assms by (simp add: idle_def)
  show ?thesis
    using i
    by (auto simp: Some write_zarr_def make_compressor_def requested_def
        allel_vcf_to_zarr_def bind_def say_def profiler_start_def
        profiler_end_def ret_def raise_def print_def start_benchmark_def end_benchmark_def
        time_time_def record_runtime_def to_pandas_def to_dict_def Let_def
        split: option.splits)
qed

lemma convert_to_zarr_run:
  fixes E input cfg w
  defines "pre \<equiv> (if alt_number cfg = None then [ReadVcf input [''numalt'']] else [])"
  defines "scan \<equiv>
     (case alt_number cfg of
        Some a \<Rightarrow> Inr a
      | None \<Rightarrow>
          (case read_vcf E (calls w) input [''numalt''] of
             Inl msg \<Rightarrow> Inl (ExternalError msg)
           | Inr None \<Rightarrow> Inl (TypeError ''NoneType object is not subscriptable'')
           | Inr (Some numalt) \<Rightarrow> np_max numalt))"
  assumes "idle bp"
  shows "\<exists>bp2 w2.
     convert_to_zarr E input target (Some cfg) (bp, w) =
       (case scan of
          Inl e \<Rightarrow> Inl e
        | Inr alt \<Rightarrow>
            if compressor cfg = ''Blosc''
            then (case vcf_to_zarr E (calls w @ pre) (requested E input target cfg alt) of
                    Some msg \<Rightarrow> Inl (ExternalError msg)
                  | None \<Rightarrow> Inr ())
            else Inl (ValueError ''Unexpected compressor type specified.''),
        (bp2, w2)) \<and>
     calls w2 = calls w @ pre @
       (case scan of
          Inl e \<Rightarrow> []
        | Inr alt \<Rightarrow>
            if compressor cfg = ''Blosc''
            then [VcfToZarr (requested E input target cfg alt)] else [])"
proof -
  from determine_alt_number_run[OF assms(3), of E input cfg w]
  obtain bp1 w1 where d: "determine_alt_number E input cfg (bp, w) = (scan, (bp1, w1))"
    and c1: "calls w1 = calls w @ pre"
    and i1: "case alt_number cfg of
        Some a \<Rightarrow> idle bp1
      | None \<Rightarrow>
          (case read_vcf E (calls w) input [''numalt''] of
             Inr (Some numalt) \<Rightarrow> numalt \<noteq> [] \<longrightarrow> idle bp1
           | _ \<Rightarrow> True)"
    unfolding pre_def scan_def by blast
  show ?thesis
  proof (cases scan)
    case (Inl e)
    then show ?thesis using d c1 by (simp add: convert_to_zarr_def bind_def)
  next
    case (Inr alt)
    have idle1: "idle bp1"
      using i1 Inr unfolding scan_def
      by (auto simp: np_max_def split: option.splits sum.splits if_splits)
    from write_zarr_run[OF idle1, of E input target cfg alt
        "print (''[VCF-Zarr] Alt number: '' @ str_int alt) w1"]
    obtain bp2 w2 where
      t: "write_zarr E input target cfg alt
            (bp1, print (''[VCF-Zarr] Alt number: '' @ str_int alt) w1) =
          (if compressor cfg = ''Blosc''
           then (case vcf_to_zarr E (calls w1) (requested E input target cfg alt) of
                   Some msg \<Rightarrow> Inl (ExternalError msg)
                 | None \<Rightarrow> Inr ())
           else Inl (ValueError ''Unexpected compressor type specified.''),
           (bp2, w2))"
      and c2: "calls w2 = calls w1 @
         (if compressor cfg = ''Blosc'' then [VcfToZarr (requested E input target cfg alt)] else [])"
      by (auto simp: print_def)
    show ?thesis
      using d t c1 c2 Inr by (simp add: convert_to_zarr_def bind_def say_def)
  qed
qed

text \<open>
  Claim C1. With an idle recorder (or none) and a Blosc configuration: when \<open>alt_number\<close>
  is unset and the read of the source's \<open>numalt\<close> field returns a non-empty array, the
  function first reads the source with exactly the field list \<open>['numalt']\<close> and then calls
  the conversion once, with the array's maximum as alt-allele ceiling; when \<open>alt_number\<close>
  is set, the only call is the conversion, with the configured ceiling.
\<close>

theorem convert_to_zarr_alt_number:
  assumes "idle bp"
  shows "(alt_number cfg = None \<and> read_vcf E (calls w) input [''numalt''] = Inr (Some numalt) \<and>
          numalt \<noteq> [] \<and> compressor cfg = ''Blosc'' \<longrightarrow>
            calls (snd (snd (convert_to_zarr E input target (Some cfg) (bp, w)))) =
              calls w @ [ReadVcf input [''numalt''],
                         VcfToZarr (requested E input target cfg (Max (set numalt)))] \<and>
            alt_ceiling (requested E input target cfg (Max (set numalt))) = Max (set numalt)) \<and>
         (alt_number cfg = Some a \<and> compressor cfg = ''Blosc'' \<longrightarrow>
            calls (snd (snd (convert_to_zarr E input target (Some cfg) (bp, w)))) =
              calls w @ [VcfToZarr (requested E input target cfg a)] \<and>
            alt_ceiling (requested E input target cfg a) = a)"
  using convert_to_zarr_run[OF assms, of E input target cfg w]
  by (auto simp: np_max_Max requested_def)

theorem convert_to_zarr_alt_number_witness:
  "idle (Some (BenchmarkProfiler_init ''bench'')) \<and>
   alt_number sample_config = None \<and>
   read_vcf sample_env (calls empty_world) ''data/sample.vcf'' [''numalt''] = Inr (Some [1, 3, 2]) \<and>
   [1, 3, 2 :: int] \<noteq> [] \<and> compressor sample_config = ''Blosc'' \<and>
   calls (snd (snd (convert_to_zarr sample_env ''data/sample.vcf'' ''zarr/sample''
       (Some sample_config) (Some (BenchmarkProfiler_init ''bench''), empty_world)))) =
     [ReadVcf ''data/sample.vcf'' [''numalt''],
      VcfToZarr (requested sample_env ''data/sample.vcf'' ''zarr/sample'' sample_config 3)] \<and>
   alt_ceiling (requested sample_env ''data/sample.vcf'' ''zarr/sample'' sample_config 3) = 3 \<and>
   alt_number (sample_config\<lparr>alt_number := Some 5\<rparr>) = Some 5 \<and>
   calls (snd (snd (convert_to_zarr sample_env ''data/sample.vcf'' ''zarr/sample''
       (Some (sample_config\<lparr>alt_number := Some 5\<rparr>))
       (Some (BenchmarkProfiler_init ''bench''), empty_world)))) =
     [VcfToZarr (requested sample_env ''data/sample.vcf'' ''zarr/sample''
        (sample_config\<lparr>alt_number := Some 5\<rparr>) 5)]"
proof -
  let ?bp = "Some (BenchmarkProfiler_init ''bench'')"
  have i: "idle ?bp" by (simp add: idle_def BenchmarkProfiler_init_def)
  have a: "alt_number sample_config = None" by (simp add: sample_config_def)
  have b: "compressor sample_config = ''Blosc''" by (simp add: sample_config_def)
  have r: "read_vcf sample_env (calls empty_world) ''data/sample.vcf'' [''numalt''] =
      Inr (Some [1, 3, 2])"
    by (simp add: sample_env_def)
  have m: "Max (set [1, 3, 2 :: int]) = 3" by simp
  have c: "calls empty_world = []" by (simp add: empty_world_def)
  have a5: "alt_number (sample_config\<lparr>alt_number := Some 5\<rparr>) = Some 5" by simp
  have b5: "compressor (sample_config\<lparr>alt_number := Some 5\<rparr>) = ''Blosc''"
    by (simp add: sample_config_def)
  from convert_to_zarr_alt_number[OF i, of sample_config sample_env empty_world
      "''data/sample.vcf''" "[1, 3, 2]" "''zarr/sample''" 0] a b r
  have one: "calls (snd (snd (convert_to_zarr sample_env ''data/sample.vcf'' ''zarr/sample''
       (Some sample_config) (?bp, empty_world)))) =
     [ReadVcf ''data/sample.vcf'' [''numalt''],
      VcfToZarr (requested sample_env ''data/sample.vcf'' ''zarr/sample'' sample_config 3)] \<and>
     alt_ceiling (requested sample_env ''data/sample.vcf'' ''zarr/sample'' sample_config 3) = 3"
    unfolding m c by simp
  from convert_to_zarr_alt_number[OF i, of "sample_config\<lparr>alt_number := Some 5\<rparr>" sample_env
      empty_world "''data/sample.vcf''" "[]" "''zarr/sample''" 5] a5 b5
  have two: "calls (snd (snd (convert_to_zarr sample_env ''data/sample.vcf'' ''zarr/sample''
       (Some (sample_config\<lparr>alt_number := Some 5\<rparr>)) (?bp, empty_world)))) =
     [VcfToZarr (requested sample_env ''data/sample.vcf'' ''zarr/sample''
        (sample_config\<lparr>alt_number := Some 5\<rparr>) 5)]"
    unfolding c by simp
  show ?thesis using i a b r one two by simp
qed

text \<open>
  Claim C2, as stated, fails: the compressor is checked on line 353, after the pre-scan
  of lines 314 to 334. With compressor \<open>Gzip\<close>, \<open>alt_number\<close> unset and a source without
  variants, \<open>read_vcf\<close> returns \<open>None\<close> and line 327 raises TypeError; the configuration
  error is never reached.
\<close>

theorem convert_to_zarr_gzip_counterexample:
  "fst (convert_to_zarr sample_env ''data/empty.vcf'' ''zarr/sample''
       (Some (sample_config\<lparr>compressor := ''Gzip''\<rparr>)) (None, empty_world)) =
     Inl (TypeError ''NoneType object is not subscriptable'')"
proof -
  let ?gz = "sample_config\<lparr>compressor := ''Gzip''\<rparr>"
  have i: "idle None" by (simp add: idle_def)
  have ga: "alt_number ?gz = None" by (simp add: sample_config_def)
  have r: "read_vcf sample_env (calls empty_world) ''data/empty.vcf'' [''numalt''] = Inr None"
    by (simp add: sample_env_def)
  show ?thesis
    using convert_to_zarr_run[OF i, of sample_env "''data/empty.vcf''" "''zarr/sample''" ?gz
        empty_world]
    by (auto simp: ga r)
qed

text \<open>
  Claim C2, amended. With an idle recorder (or none) and a compressor other than
  \<open>Blosc\<close>, the function ends in an exception and never calls the conversion: the only
  call it can have made is the pre-scan read. The exception is the ValueError of the
  compressor check whenever the function gets that far, that is when \<open>alt_number\<close> is set
  or the pre-scan returns a non-empty array. With \<open>Blosc\<close> that ValueError is never raised.
\<close>

theorem convert_to_zarr_unsupported_compressor:
  assumes "idle bp"
  shows "(compressor cfg \<noteq> ''Blosc'' \<longrightarrow>
            (\<exists>e. fst (convert_to_zarr E input target (Some cfg) (bp, w)) = Inl e) \<and>
            calls (snd (snd (convert_to_zarr E input target (Some cfg) (bp, w)))) =
              calls w @ (if alt_number cfg = None then [ReadVcf input [''numalt'']] else []) \<and>
            (alt_number cfg \<noteq> None \<or>
             (\<exists>numalt. read_vcf E (calls w) input [''numalt''] = Inr (Some numalt) \<and> numalt \<noteq> [])
             \<longrightarrow> fst (convert_to_zarr E input target (Some cfg) (bp, w)) =
                   Inl (ValueError ''Unexpected compressor type specified.''))) \<and>
         (compressor cfg = ''Blosc'' \<longrightarrow>
            fst (convert_to_zarr E input target (Some cfg) (bp, w)) \<noteq>
              Inl (ValueError ''Unexpected compressor type specified.''))"
  using convert_to_zarr_run[OF assms, of E input target cfg w]
  by (auto simp: np_max_def split: option.splits sum.splits if_splits)

theorem convert_to_zarr_unsupported_compressor_witness:
  "idle (Some (BenchmarkProfiler_init ''bench'')) \<and>
   compressor (sample_config\<lparr>compressor := ''Gzip''\<rparr>) \<noteq> ''Blosc'' \<and>
   read_vcf sample_env (calls empty_world) ''data/sample.vcf'' [''numalt''] = Inr (Some [1, 3, 2]) \<and>
   fst (convert_to_zarr sample_env ''data/sample.vcf'' ''zarr/sample''
       (Some (sample_config\<lparr>compressor := ''Gzip''\<rparr>))
       (Some (BenchmarkProfiler_init ''bench''), empty_world)) =
     Inl (ValueError ''Unexpected compressor type specified.'') \<and>
   calls (snd (snd (convert_to_zarr sample_env ''data/sample.vcf'' ''zarr/sample''
       (Some (sample_config\<lparr>compressor := ''Gzip''\<rparr>))
       (Some (BenchmarkProfiler_init ''bench''), empty_world)))) =
     [ReadVcf ''data/sample.vcf'' [''numalt'']] \<and>
   compressor sample_config = ''Blosc'' \<and>
   fst (convert_to_zarr sample_env ''data/sample.vcf'' ''zarr/sample'' (Some sample_config)
       (Some (BenchmarkProfiler_init ''bench''), empty_world)) \<noteq>
     Inl (ValueError ''Unexpected compressor type specified.'')"
proof -
  let ?bp = "Some (BenchmarkProfiler_init ''bench'')"
  let ?gz = "sample_config\<lparr>compressor := ''Gzip''\<rparr>"
  have i: "idle ?bp" by (simp add: idle_def BenchmarkProfiler_init_def)
  have g: "compressor ?gz \<noteq> ''Blosc''" by simp
  have ga: "alt_number ?gz = None" by (simp add: sample_config_def)
  have b: "compressor sample_config = ''Blosc''" by (simp add: sample_config_def)
  have r: "read_vcf sample_env (calls empty_world) ''data/sample.vcf'' [''numalt''] =
      Inr (Some [1, 3, 2])"
    by (simp add: sample_env_def)
  have c: "calls empty_world = []" by (simp add: empty_world_def)
  from convert_to_zarr_unsupported_compressor[OF i, of ?gz sample_env "''data/sample.vcf''"
      "''zarr/sample''" empty_world] g r
  have one: "fst (convert_to_zarr sample_env ''data/sample.vcf'' ''zarr/sample'' (Some ?gz)
         (?bp, empty_world)) = Inl (ValueError ''Unexpected compressor type specified.'') \<and>
     calls (snd (snd (convert_to_zarr sample_env ''data/sample.vcf'' ''zarr/sample'' (Some ?gz)
         (?bp, empty_world)))) = [ReadVcf ''data/sample.vcf'' [''numalt'']]"
    unfolding c by (simp add: ga)
  from convert_to_zarr_unsupported_compressor[OF i, of sample_config sample_env
      "''data/sample.vcf''" "''zarr/sample''" empty_world] b
  have two: "fst (convert_to_zarr sample_env ''data/sample.vcf'' ''zarr/sample''
       (Some sample_config) (?bp, empty_world)) \<noteq>
     Inl (ValueError ''Unexpected compressor type specified.'')"
    by blast
  show ?thesis using i g r b one two by simp
qed

section \<open>Invariants of the statements\<close>

lemma frame_refl: "frame s s"
  by (simp add: frame_def)

lemma frame_trans:
  assumes "frame s t" and "frame t u"
  shows "frame s u"
proof -
  from assms(1) obtain r1 c1 where
    a: "label_of t = label_of s" "run_of t = run_of s"
       "rows_of t = rows_of s @ r1" "list_all (\<lambda>row. row_run_number row = run_of s) r1"
       "calls (snd t) = calls (snd s) @ c1" "list_all (\<lambda>c. \<not> is_wipe c) c1"
    unfolding frame_def by blast
  from assms(2) obtain r2 c2 where
    b: "label_of u = label_of t" "run_of u = run_of t"
       "rows_of u = rows_of t @ r2" "list_all (\<lambda>row. row_run_number row = run_of t) r2"
       "calls (snd u) = calls (snd t) @ c2" "list_all (\<lambda>c. \<not> is_wipe c) c2"
    unfolding frame_def by blast
  have 1: "rows_of u = rows_of s @ (r1 @ r2)" using a(3) b(3) by simp
  have 2: "list_all (\<lambda>row. row_run_number row = run_of s) (r1 @ r2)"
    using a(2,4) b(4) by simp
  have 3: "calls (snd u) = calls (snd s) @ (c1 @ c2)" using a(5) b(5) by simp
  have 4: "list_all (\<lambda>c. \<not> is_wipe c) (c1 @ c2)" using a(6) b(6) by simp
  have 5: "label_of u = label_of s" using a(1) b(1) by simp
  have 6: "run_of u = run_of s" using a(2) b(2) by simp
  show ?thesis unfolding frame_def using 1 2 3 4 5 6 by blast
qed







lemma bind_success:
  assumes "bind m f s = (Inr x, t)"
  obtains y t1 where "m s = (Inr y, t1)" and "f y t1 = (Inr x, t)"
proof -
  obtain r t1 where m: "m s = (r, t1)" by (cases "m s")
  show ?thesis
  proof (cases r)
    case (Inl e)
    then show ?thesis using assms m by (simp add: bind_def)
  next
    case (Inr y)
    then show ?thesis using assms m that by (simp add: bind_def)
  qed
qed

lemma closes_bind_last:
  assumes "\<And>x. closes v (f x)"
  shows "closes v (bind m f)"
  unfolding closes_def
proof (intro allI impI)
  fix s x t
  assume "bind m f s = (Inr x, t)"
  then obtain y t1 where "f y t1 = (Inr x, t)" by (rule bind_success)
  then show "idle (fst (v t))" using assms[of y] unfolding closes_def by blast
qed

lemma closes_bind_first:
  assumes "closes v m" and "\<And>x. settles v (f x)"
  shows "closes v (bind m f)"
  unfolding closes_def
proof (intro allI impI)
  fix s x t
  assume "bind m f s = (Inr x, t)"
  then obtain y t1 where m: "m s = (Inr y, t1)" and f: "f y t1 = (Inr x, t)"
    by (rule bind_success)
  have "idle (fst (v t1))" using assms(1) m unfolding closes_def by blast
  then show "idle (fst (v t))" using assms(2)[of y] f unfolding settles_def by blast
qed

lemma settles_bind:
  assumes "settles v m" and "\<And>x. settles v (f x)"
  shows "settles v (bind m f)"
  unfolding settles_def
proof (intro allI impI)
  fix s x t
  assume i: "idle (fst (v s))" and "bind m f s = (Inr x, t)"
  then obtain y t1 where m: "m s = (Inr y, t1)" and f: "f y t1 = (Inr x, t)"
    by (auto elim: bind_success)
  have "idle (fst (v t1))" using assms(1) i m unfolding settles_def by blast
  then show "idle (fst (v t))" using assms(2)[of y] f unfolding settles_def by blast
qed

lemma closes_settles: "closes v m \<Longrightarrow> settles v m"
  unfolding closes_def settles_def by blast

lemma settles_ret: "settles v (ret x)"
  by (simp add: settles_def ret_def)

lemma closes_raise: "closes v (raise e)"
  by (simp add: closes_def raise_def)





subsection \<open>The recorder's operations\<close>

lemma frame_SomeI:
  assumes "benchmark_label p1 = benchmark_label p"
    and "run_number (results p1) = run_number (results p)"
    and "data_lines (log_of w1 (benchmark_label p)) =
           data_lines (log_of w (benchmark_label p)) @ rows"
    and "list_all (\<lambda>row. row_run_number row = run_number (results p)) rows"
    and "calls w1 = calls w @ cs"
    and "list_all (\<lambda>c. \<not> is_wipe c) cs"
  shows "frame (Some p, w) (Some p1, w1)"
  unfolding frame_def using assms by (simp add: label_of_def run_of_def rows_of_def)


lemma log_of_cong: "files w1 = files w \<Longrightarrow> log_of w1 label = log_of w label"
  by (simp add: log_of_def)

lemma start_benchmark_frame:
  assumes "start_benchmark name p w = (p1, w1)"
  shows "benchmark_label p1 = benchmark_label p"
    and "run_number (results p1) = run_number (results p)"
    and "files w1 = files w" and "calls w1 = calls w"
    and "benchmark_running p1"
  using assms
  by (auto simp: start_benchmark_def time_time_def Let_def split: if_splits)

lemma end_benchmark_idle: "\<not> benchmark_running p \<Longrightarrow> end_benchmark p w = (Inr (), p, w)"
  by (simp add: end_benchmark_def)

lemma end_benchmark_unset:
  "benchmark_running p \<Longrightarrow> start_time (results p) = None \<Longrightarrow>
   end_benchmark p w =
     (Inl (TypeError ''unsupported operand type(s) for -''), p, w\<lparr>reads := Suc (reads w)\<rparr>)"
  by (simp add: end_benchmark_def time_time_def)

lemma end_benchmark_emit:
  "benchmark_running p \<Longrightarrow> start_time (results p) = Some st \<Longrightarrow>
   end_benchmark p w =
     (Inr (),
      p\<lparr>results := (results p)\<lparr>exec_time := Some (clock w (reads w) - st)\<rparr>,
        benchmark_running := False\<rparr>,
      w\<lparr>reads := Suc (reads w),
        files := (files w)(psv_name (benchmark_label p) \<mapsto>
          (case files w (psv_name (benchmark_label p)) of None \<Rightarrow> [] | Some ls \<Rightarrow> ls) @
          to_csv [(''Log Timestamp'', DateTime st),
                  (''Run Number'', Number (run_number (results p))),
                  (''Operation'', Text (operation_name (results p))),
                  (''Execution Time'', Seconds (Some (clock w (reads w) - st)))]
            (files w (psv_name (benchmark_label p)) = None))\<rparr>)"
  by (simp add: end_benchmark_def time_time_def record_runtime_def to_pandas_def to_dict_def
      isfile_def Let_def)

lemma end_benchmark_frame:
  assumes "end_benchmark p w = (r, p1, w1)"
  shows "benchmark_label p1 = benchmark_label p"
    and "run_number (results p1) = run_number (results p)"
    and "calls w1 = calls w"
    and "r = Inr () \<Longrightarrow> \<not> benchmark_running p1"
    and "\<exists>rows. data_lines (log_of w1 (benchmark_label p)) =
            data_lines (log_of w (benchmark_label p)) @ rows \<and>
          list_all (\<lambda>row. row_run_number row = run_number (results p)) rows \<and>
          (r = Inr () \<and> benchmark_running p \<longrightarrow> rows \<noteq> [])"
proof -
  consider (idle) "\<not> benchmark_running p"
    | (unset) "benchmark_running p" "start_time (results p) = None"
    | (emit) st where "benchmark_running p" "start_time (results p) = Some st"
    by (cases "start_time (results p)") auto
  then have "benchmark_label p1 = benchmark_label p \<and>
      run_number (results p1) = run_number (results p) \<and> calls w1 = calls w \<and>
      (r = Inr () \<longrightarrow> \<not> benchmark_running p1) \<and>
      (\<exists>rows. data_lines (log_of w1 (benchmark_label p)) =
            data_lines (log_of w (benchmark_label p)) @ rows \<and>
          list_all (\<lambda>row. row_run_number row = run_number (results p)) rows \<and>
          (r = Inr () \<and> benchmark_running p \<longrightarrow> rows \<noteq> []))"
  proof cases
    case idle
    then show ?thesis using assms by (simp add: end_benchmark_idle)
  next
    case unset
    then show ?thesis using assms by (auto simp: end_benchmark_unset log_of_def)
  next
    case emit
    let ?row = "[DateTime st, Number (run_number (results p)), Text (operation_name (results p)),
                 Seconds (Some (clock w (reads w) - st))]"
    have rn: "row_run_number ?row = run_number (results p)"
      by (simp add: row_run_number_def)
    have "data_lines (log_of w1 (benchmark_label p)) =
          data_lines (log_of w (benchmark_label p)) @ [?row]"
      using assms emit
      by (cases "files w (psv_name (benchmark_label p))")
         (auto simp: end_benchmark_emit log_of_def to_csv_def data_lines_append)
    then have "\<exists>rows. data_lines (log_of w1 (benchmark_label p)) =
            data_lines (log_of w (benchmark_label p)) @ rows \<and>
          list_all (\<lambda>row. row_run_number row = run_number (results p)) rows \<and>
          (r = Inr () \<and> benchmark_running p \<longrightarrow> rows \<noteq> [])"
      using rn by (intro exI[of _ "[?row]"]) simp
    moreover have "benchmark_label p1 = benchmark_label p \<and>
      run_number (results p1) = run_number (results p) \<and> calls w1 = calls w \<and>
      (r = Inr () \<longrightarrow> \<not> benchmark_running p1)"
      using assms emit by (auto simp: end_benchmark_emit)
    ultimately show ?thesis by blast
  qed
  then show "benchmark_label p1 = benchmark_label p"
    and "run_number (results p1) = run_number (results p)"
    and "calls w1 = calls w"
    and "r = Inr () \<Longrightarrow> \<not> benchmark_running p1"
    and "\<exists>rows. data_lines (log_of w1 (benchmark_label p)) =
            data_lines (log_of w (benchmark_label p)) @ rows \<and>
          list_all (\<lambda>row. row_run_number row = run_number (results p)) rows \<and>
          (r = Inr () \<and> benchmark_running p \<longrightarrow> rows \<noteq> [])"
    by blast+
qed


















subsection \<open>The conversion, seen from the benchmark\<close>


lemma settles_say: "settles (\<lambda>s. s) (say line)"
  by (auto simp: settles_def say_def)



lemma closes_profiler_end: "closes (\<lambda>s. s) profiler_end"
  unfolding closes_def
proof (intro allI impI)
  fix s :: pstate and x t
  assume a: "profiler_end s = (Inr x, t)"
  obtain bp w where s: "s = (bp, w)" by (cases s)
  show "idle (fst t)"
  proof (cases bp)
    case None
    then show ?thesis using a by (auto simp: s profiler_end_def idle_def)
  next
    case (Some p)
    obtain r p1 w1 where e: "end_benchmark p w = (r, p1, w1)"
      by (cases "end_benchmark p w") auto
    have "r = Inr ()" "t = (Some p1, w1)" using a by (auto simp: s Some profiler_end_def e)
    then show ?thesis using end_benchmark_frame(4)[OF e] by (simp add: idle_def)
  qed
qed


lemma settles_allel_read_vcf: "settles (\<lambda>s. s) (allel_read_vcf E path flds)"
  by (auto simp: settles_def allel_read_vcf_def)



lemma settles_numalt_of: "settles (\<lambda>s. s) (numalt_of callset)"
  by (cases callset) (simp_all add: numalt_of_def settles_ret closes_raise closes_settles)



lemma settles_determine_alt_number: "settles (\<lambda>s. s) (determine_alt_number E path cfg)"
proof (cases "alt_number cfg")
  case None
  have "closes (\<lambda>s. s) (determine_alt_number E path cfg)"
    unfolding determine_alt_number_def None option.case
    by (intro closes_bind_last closes_bind_first[OF closes_profiler_end] settles_ret)
  then show ?thesis by (rule closes_settles)
next
  case (Some a)
  show ?thesis unfolding determine_alt_number_def Some option.case
    by (intro settles_bind settles_say settles_ret)
qed












subsection \<open>The timed steps of a run\<close>





lemma remove_singletons_effect:
  assumes "remove_singletons A ac g (b, w) = (r, (b1, w1))"
  shows "frame (view (b, w)) (view (b1, w1))"
    and "\<And>x. r = Inr x \<Longrightarrow> \<not> benchmark_running (benchmark_profiler b1)"
proof -
  let ?p = "benchmark_profiler b"
  have "frame (view (b, w)) (view (b1, w1)) \<and>
        (\<forall>x. r = Inr x \<longrightarrow> \<not> benchmark_running (benchmark_profiler b1))"
  proof (cases "pca_filter_mask A ac")
    case (Inl e)
    then have "b1 = b" "w1 = w" "r = Inl e"
      using assms by (auto simp: remove_singletons_def pca_remove_singletons_def)
    then show ?thesis by (simp add: frame_refl)
  next
    case (Inr flt)
    obtain p1 wa where st: "start_benchmark ''PCA: Remove singletons and multiallelic SNPs'' ?p w = (p1, wa)"
      by (cases "start_benchmark ''PCA: Remove singletons and multiallelic SNPs'' ?p w")
    note sf = start_benchmark_frame[OF st]
    have f1: "frame (Some ?p, w) (Some p1, wa)"
      by (rule frame_SomeI[where rows = "[]" and cs = "[]"]) (simp_all add: sf log_of_def)
    define wb where "wb = (if 0 < count_nonzero flt then wa else print filter_warning wa)"
    have f2: "frame (Some p1, wa) (Some p1, wb)"
      by (rule frame_SomeI[where rows = "[]" and cs = "[]"])
         (simp_all add: wb_def print_def log_of_def)
    define mid where "mid = (if 0 < count_nonzero flt then np_compress flt g else Inr g)"
    have step: "pca_remove_singletons A ac g ?p w =
        (case mid of
           Inl e \<Rightarrow> (Inl e, p1, wb)
         | Inr gf \<Rightarrow>
             (case end_benchmark p1 wb of
                (Inl e, p2, w3) \<Rightarrow> (Inl e, p2, w3)
              | (Inr u, p2, w3) \<Rightarrow> (Inr gf, p2, w3)))"
    proof (cases "0 < count_nonzero flt")
      case True
      then have eqs: "wb = wa" "mid = np_compress flt g" by (simp_all add: wb_def mid_def)
      show ?thesis unfolding eqs using True
        by (simp add: pca_remove_singletons_def Inr st Let_def)
    next
      case False
      then have eqs: "wb = print filter_warning wa" "mid = Inr g"
        by (simp_all add: wb_def mid_def)
      show ?thesis unfolding eqs using False
        by (simp add: pca_remove_singletons_def Inr st Let_def)
    qed
    show ?thesis
    proof (cases mid)
      case (Inl e)
      then have "b1 = b\<lparr>benchmark_profiler := p1\<rparr>" "w1 = wb" "r = Inl e"
        using assms by (auto simp: remove_singletons_def step)
      then show ?thesis using frame_trans[OF f1 f2] by (simp add: view_def)
    next
      case (Inr gf)
      obtain r2 p2 w3 where en: "end_benchmark p1 wb = (r2, p2, w3)"
        by (cases "end_benchmark p1 wb") auto
      note ef = end_benchmark_frame[OF en]
      from ef(5) obtain rows where
        rows: "data_lines (log_of w3 (benchmark_label p1)) =
                 data_lines (log_of wb (benchmark_label p1)) @ rows"
              "list_all (\<lambda>row. row_run_number row = run_number (results p1)) rows"
        by blast
      have f3: "frame (Some p1, wb) (Some p2, w3)"
        by (rule frame_SomeI[where rows = rows and cs = "[]"]) (simp_all add: ef rows)
      have res: "b1 = b\<lparr>benchmark_profiler := p2\<rparr>" "w1 = w3"
        "r = (case r2 of Inl e \<Rightarrow> Inl e | Inr u \<Rightarrow> Inr gf)"
        using assms by (auto simp: remove_singletons_def step Inr en split: sum.splits)
      have "frame (Some ?p, w) (Some p2, w3)"
        by (rule frame_trans[OF frame_trans[OF f1 f2] f3])
      moreover have "\<forall>x. r = Inr x \<longrightarrow> \<not> benchmark_running p2"
        using res(3) ef(4) by (cases r2) auto
      ultimately show ?thesis by (simp add: res view_def)
    qed
  qed
  then show "frame (view (b, w)) (view (b1, w1))"
    and "\<And>x. r = Inr x \<Longrightarrow> \<not> benchmark_running (benchmark_profiler b1)"
    by blast+
qed


lemma closes_remove_singletons: "closes view (remove_singletons A ac g)"
  unfolding closes_def
proof (intro allI impI)
  fix s :: bstate and x t
  assume a: "remove_singletons A ac g s = (Inr x, t)"
  obtain b w where s: "s = (b, w)" by (cases s)
  obtain b1 w1 where t: "t = (b1, w1)" by (cases t)
  show "idle (fst (view t))"
    using remove_singletons_effect(2)[OF a[unfolded s t]] by (simp add: t view_def idle_def)
qed
















subsection \<open>One run\<close>




















subsection \<open>The loop\<close>





subsection \<open>The session\<close>


lemmas run_eval =
  run_benchmark_def Benchmark_init_def sample_bench_def sample_dirs_def run_once_def
  bind_def ret_def raise_def remove_directory_tree_def external_def assign_def
  resolve_mode_def use_dataset_def os_path_join_def exit_def tell_def print_def
  sample_env_def empty_world_def BenchmarkProfiler_init_def BenchmarkResultsData_init_def
  set_run_number_def upto.simps

lemmas step_eval =
  benchmark_load_zarr_dataset_def start_def finish_def start_benchmark_def
  end_benchmark_def record_runtime_def time_time_def to_pandas_def to_dict_def to_csv_def
  isfile_def psv_name_def benchmark_create_genotype_array_def lift_result_def
  get_genotype_array_def kinds_def wrap_array_def get_callset_genotype_data_def
  sample_callset_def benchmark_simple_aggregations_def aggregation_def method_call_def
  compute_def Let_def





lemmas pca_eval =
  benchmark_pca'_def handle_data_def handle_backend_def sample_allel_def is_singleton_call_def
  np_and_def count_nonzero_def remove_singletons_def pca_remove_singletons_def
  pca_filter_mask_def min_axis1_def filter_warning_def np_compress_def np_take_def
  nonzero_def subsample_def pca_subsample_def pca_subsample_indices_def random_choice_def
  array_take_def

text \<open>
  A whole session on a Dask genotype array with the PCA benchmark switched on: the first
  run loads the dataset, counts and filters, and ends at the slice of line 288.
\<close>

lemma sample_session_dask_pca:
  "fst (run_benchmark sample_env
     (Benchmark_init
        (Some (sample_bench\<lparr>benchmark_aggregations := False, benchmark_pca := True,
                 genotype_array_type := GENOTYPE_ARRAY_DASK kinds\<rparr>))
        (Some sample_dirs) ''bench'', empty_world)) =
   Inl (AttributeError ''Array object has no attribute take'')"
  by (simp add: run_eval step_eval pca_eval)

end
